theory Spec2Isabelle
  imports Main "HOL-Library.Word" "HOL-Library.Sublist"
begin

section \<open>Faults and outcomes of calls\<close>

text \<open>
  A thrown object either derives from \<^verbatim>\<open>std::exception\<close>, and then has a
  \<^verbatim>\<open>what()\<close> message, or it does not. Both carry the name of their dynamic type.
  A handler \<^verbatim>\<open>catch (Except&)\<close> is the predicate telling which faults it matches.

  A call of client code (the unit under test, the filter, an operator of a value type) and
  a call of an assertion either returns a value or is left by an exception.
\<close>

datatype fault =
  Std_exception string string
  | Non_standard string

datatype 'a outcome =
  Returns 'a
  | Throws fault

section \<open>The output stream\<close>

text \<open>
  \<^verbatim>\<open>UnitTester\<close> writes to a \<^verbatim>\<open>std::ostream&\<close>. Of the stream the model keeps the
  characters written to it, its format flags (\<^verbatim>\<open>std::ios_base::fmtflags\<close>: \<^verbatim>\<open>boolalpha\<close>,
  which the class sets, and the remaining flags, uninterpreted), and the way the stream
  renders an unsigned integer under given flags (the \<^verbatim>\<open>num_put\<close> facet of its locale:
  base, prefix, digit case, grouping). The field width is taken to be 0, as it is by
  default and after every formatted insertion.
  The stream is threaded through the session state: the unit under test is taken not to
  write to the session's stream nor to touch the session.
\<close>

record fmtflags =
  boolalpha :: bool
  other_flags :: nat

record ostream =
  written :: string
  flags :: fmtflags
  num_put :: "fmtflags \<Rightarrow> 64 word \<Rightarrow> string"

text \<open>
  Insertions of the standard library, which return:
  \<^verbatim>\<open>out << "text"\<close> and \<^verbatim>\<open>out << '\n'\<close>, \<^verbatim>\<open>out << n\<close> for a \<^verbatim>\<open>uintmax_t\<close>,
  \<^verbatim>\<open>out << b\<close> for a \<^verbatim>\<open>bool\<close>, and \<^verbatim>\<open>out << std::boolalpha\<close>.
\<close>

definition put :: "string \<Rightarrow> ostream \<Rightarrow> ostream" where
  "put cs os = os\<lparr>written := written os @ cs\<rparr>"

definition nl :: string where
  "nl = [CHR 0x0A]"

definition put_uintmax :: "64 word \<Rightarrow> ostream \<Rightarrow> ostream" where
  "put_uintmax c os = put (num_put os (flags os) c) os"

definition put_bool :: "bool \<Rightarrow> ostream \<Rightarrow> ostream" where
  "put_bool b os =
     (if boolalpha (flags os) then put (if b then ''true'' else ''false'') os
      else put (num_put os (flags os) (if b then 1 else 0)) os)"

definition put_boolalpha :: "ostream \<Rightarrow> ostream" where
  "put_boolalpha os = os\<lparr>flags := (flags os)\<lparr>boolalpha := True\<rparr>\<rparr>"

text \<open>
  A chain \<^verbatim>\<open>out << a << b << c\<close> of such insertions is \<open>stream out [a, b, c]\<close>: they
  run from left to right.
\<close>

definition stream :: "ostream \<Rightarrow> (ostream \<Rightarrow> ostream) list \<Rightarrow> ostream" where
  "stream os fs = fold (\<lambda>f. f) fs os"

text \<open>
  \<^verbatim>\<open>out << value\<close> for a value of a template type runs that type's \<^verbatim>\<open>operator<<\<close>,
  which is client code: it may write, change the flags, and throw. It is a parameter
  \<open>pr\<close> of the assertion; \<open>pr v os\<close> gives the fault, if one is thrown, and the stream
  as the operator leaves it.
\<close>

type_synonym inserter = "ostream \<Rightarrow> fault option \<times> ostream"

definition put_value :: "('a \<Rightarrow> inserter) \<Rightarrow> 'a \<Rightarrow> inserter" where
  "put_value pr v os = pr v os"

definition plain :: "(ostream \<Rightarrow> ostream) \<Rightarrow> inserter" where
  "plain f os = (None, f os)"

text \<open>
  A chain that contains such an insertion runs from left to right up to the first
  insertion that throws; what was written before stays written.
\<close>

fun try_stream :: "ostream \<Rightarrow> inserter list \<Rightarrow> fault option \<times> ostream" where
  "try_stream os [] = (None, os)"
| "try_stream os (f # fs) =
     (case f os of
        (None, os') \<Rightarrow> try_stream os' fs
      | (Some e, os') \<Rightarrow> (Some e, os'))"

text \<open>
  \<^verbatim>\<open>local_iostream_flags\<close>: the constructor reads the flags of the stream into
  \<^verbatim>\<open>f_\<close>, the destructor writes them back.
\<close>

definition local_iostream_flags :: "ostream \<Rightarrow> fmtflags" where
  "local_iostream_flags io = flags io"

definition local_iostream_flags_dtor :: "fmtflags \<Rightarrow> ostream \<Rightarrow> ostream" where
  "local_iostream_flags_dtor f io = io\<lparr>flags := f\<rparr>"

section \<open>The unit under test\<close>

text \<open>
  The callable \<^verbatim>\<open>t\<close> has no argument; what it reads and changes is a world \<open>'w\<close>
  outside the session. A call \<^verbatim>\<open>t()\<close> takes the world and gives the outcome and
  the world after it.
\<close>

type_synonym ('a, 'w) test = "'w \<Rightarrow> 'a outcome \<times> 'w"

section \<open>The test session\<close>

text \<open>
  The private members \<^verbatim>\<open>out_\<close>, \<^verbatim>\<open>count_pass_\<close>, ... are the fields
  \<open>out'\<close>, \<open>count_pass'\<close>, ...; the counters are \<^verbatim>\<open>uintmax_t\<close>, taken 64 bits
  wide, whose \<open>++\<close> wraps. The filter is a \<^verbatim>\<open>std::function\<close> from identifiers to
  \<^verbatim>\<open>bool\<close>: client code that returns a verdict or throws, with no other effect; an
  empty one is \<open>None\<close>.
\<close>

record UnitTester =
  out' :: ostream
  count_pass' :: "64 word"
  count_fail' :: "64 word"
  count_skip' :: "64 word"
  color_output' :: bool
  hide_pass' :: bool
  filter' :: "(string \<Rightarrow> bool outcome) option"

definition c_red :: string where
  "c_red = CHR 0x1B # ''[31m''"

definition c_green :: string where
  "c_green = CHR 0x1B # ''[32m''"

definition c_reset :: string where
  "c_reset = CHR 0x1B # ''[0m''"

definition red' :: "UnitTester \<Rightarrow> string" where
  "red' s = (if color_output' s then c_red else [])"

definition green' :: "UnitTester \<Rightarrow> string" where
  "green' s = (if color_output' s then c_green else [])"

definition reset' :: "UnitTester \<Rightarrow> string" where
  "reset' s = (if color_output' s then c_reset else [])"

text \<open>The two glyphs are U+2611 and U+2612 in UTF-8, each followed by two spaces.\<close>

definition pass_label :: string where
  "pass_label = [CHR 0xE2, CHR 0x98, CHR 0x91] @ ''  PASS  ''"

definition fail_label :: string where
  "fail_label = [CHR 0xE2, CHR 0x98, CHR 0x92] @ ''  FAIL  ''"

definition pass' :: "string \<Rightarrow> UnitTester \<Rightarrow> UnitTester" where
  "pass' ident s =
     (let s1 = s\<lparr>count_pass' := count_pass' s + 1\<rparr>
      in if \<not> hide_pass' s1
         then s1\<lparr>out' := stream (out' s1)
                [put (green' s1), put pass_label, put (reset' s1), put ident, put nl]\<rparr>
         else s1)"

definition fail' :: "string \<Rightarrow> UnitTester \<Rightarrow> UnitTester" where
  "fail' ident s =
     (let s1 = s\<lparr>count_fail' := count_fail' s + 1\<rparr>
      in s1\<lparr>out' := stream (out' s1)
            [put (red' s1), put fail_label, put (reset' s1), put ident, put nl]\<rparr>)"

text \<open>The constructor.\<close>

definition UnitTester :: "ostream \<Rightarrow> UnitTester" where
  "UnitTester os =
     \<lparr>out' = os, count_pass' = 0, count_fail' = 0, count_skip' = 0,
      color_output' = True, hide_pass' = False, filter' = None\<rparr>"

definition count_pass :: "UnitTester \<Rightarrow> 64 word" where
  "count_pass s = count_pass' s"

definition count_fail :: "UnitTester \<Rightarrow> 64 word" where
  "count_fail s = count_fail' s"

definition summary :: "UnitTester \<Rightarrow> UnitTester" where
  "summary s =
     (let s1 = (if count_skip' s > 0
                then s\<lparr>out' := stream (out' s)
                       [put_uintmax (count_skip' s), put '' tests skipped.'', put nl]\<rparr>
                else s);
          s2 = s1\<lparr>out' := stream (out' s1)
                 [put_uintmax (count_pass' s1), put '' tests passed.'', put nl]\<rparr>
      in if count_fail' s2 > 0
         then s2\<lparr>out' := stream (out' s2)
                [put_uintmax (count_fail' s2), put '' tests '', put (red' s2),
                 put ''FAILED !'', put (reset' s2), put nl]\<rparr>
         else s2)"

text \<open>The getter \<^verbatim>\<open>color_output()\<close> and the setter \<^verbatim>\<open>color_output(bool)\<close>.\<close>

definition color_output :: "UnitTester \<Rightarrow> bool" where
  "color_output s = color_output' s"

definition color_output_set :: "bool \<Rightarrow> UnitTester \<Rightarrow> UnitTester" where
  "color_output_set c s = s\<lparr>color_output' := c\<rparr>"

definition hide_pass :: "UnitTester \<Rightarrow> UnitTester" where
  "hide_pass s = s\<lparr>hide_pass' := True\<rparr>"

definition show_pass :: "UnitTester \<Rightarrow> UnitTester" where
  "show_pass s = s\<lparr>hide_pass' := False\<rparr>"

definition only_if :: "(string \<Rightarrow> bool outcome) option \<Rightarrow> UnitTester \<Rightarrow> UnitTester" where
  "only_if f s = s\<lparr>filter' := f\<rparr>"

definition always :: "UnitTester \<Rightarrow> UnitTester" where
  "always s = s\<lparr>filter' := None\<rparr>"

text \<open>
  The condition \<^verbatim>\<open>filter_ && !filter_(id)\<close> that opens every assertion, outside any
  \<^verbatim>\<open>try\<close>: an exception of the filter leaves the assertion. \<open>skip\<close> is the
  statement \<^verbatim>\<open>++count_skip_\<close> of its body \<^verbatim>\<open>{ ++count_skip_; return false; }\<close>.
\<close>

definition filter_rejects :: "UnitTester \<Rightarrow> string \<Rightarrow> bool outcome" where
  "filter_rejects s ident =
     (case filter' s of
        None \<Rightarrow> Returns False
      | Some f \<Rightarrow> (case f ident of Returns b \<Rightarrow> Returns (\<not> b) | Throws e \<Rightarrow> Throws e))"

definition skip :: "UnitTester \<Rightarrow> UnitTester" where
  "skip s = s\<lparr>count_skip' := count_skip' s + 1\<rparr>"

text \<open>
  \<^verbatim>\<open>expect_value\<close>. The parameters \<open>eq\<close>, \<open>pr\<close> and \<open>pr'\<close> are
  \<^verbatim>\<open>operator==\<close> between the type of \<^verbatim>\<open>test_value\<close> and \<^verbatim>\<open>T\<close>,
  \<^verbatim>\<open>operator<<\<close> of \<^verbatim>\<open>T\<close> and \<^verbatim>\<open>operator<<\<close> of the type of \<^verbatim>\<open>test_value\<close>.
  The two handlers are \<open>expect_value_catch\<close>; they run for an exception of the unit
  under test, of the comparison, and of the printing of the diagnostic inside the
  \<^verbatim>\<open>try\<close>, which comes after \<^verbatim>\<open>fail_(id)\<close>. An exception thrown while a handler
  prints leaves the assertion.
\<close>

definition expect_value_catch ::
  "('a \<Rightarrow> inserter) \<Rightarrow> string \<Rightarrow> 'a \<Rightarrow> fault \<Rightarrow> UnitTester \<Rightarrow> 'w
     \<Rightarrow> bool outcome \<times> UnitTester \<times> 'w" where
  "expect_value_catch pr ident v e s w =
     (let s1 = fail' ident s
      in case try_stream (out' s1)
                (case e of
                   Std_exception ty what \<Rightarrow>
                     [plain (put ''  expected value ''), put_value pr v,
                      plain (put '', got exception: ''), plain (put what), plain (put nl)]
                 | Non_standard ty \<Rightarrow>
                     [plain (put ''  expected value ''), put_value pr v,
                      plain (put '', got exception not derived from std::exception''),
                      plain (put nl)])
         of (None, os) \<Rightarrow> (Returns False, s1\<lparr>out' := os\<rparr>, w)
          | (Some e', os) \<Rightarrow> (Throws e', s1\<lparr>out' := os\<rparr>, w))"

definition expect_value ::
  "('b \<Rightarrow> 'a \<Rightarrow> bool outcome) \<Rightarrow> ('a \<Rightarrow> inserter) \<Rightarrow> ('b \<Rightarrow> inserter) \<Rightarrow> string \<Rightarrow> 'a
     \<Rightarrow> ('b, 'w) test \<Rightarrow> UnitTester \<Rightarrow> 'w \<Rightarrow> bool outcome \<times> UnitTester \<times> 'w" where
  "expect_value eq pr pr' ident v t s w =
     (case filter_rejects s ident of
        Throws e \<Rightarrow> (Throws e, s, w)
      | Returns rejected \<Rightarrow>
          if rejected then (Returns False, skip s, w)
          else (case t w of
             (Throws e, w') \<Rightarrow> expect_value_catch pr ident v e s w'
           | (Returns test_value, w') \<Rightarrow>
               (case eq test_value v of
                  Throws e \<Rightarrow> expect_value_catch pr ident v e s w'
                | Returns result \<Rightarrow>
                    if result then (Returns result, pass' ident s, w')
                    else (let s1 = fail' ident s
                          in case try_stream (out' s1)
                                    [plain (put ''  expected value ''), put_value pr v,
                                     plain (put '', found ''), put_value pr' test_value,
                                     plain (put '' instead.''), plain (put nl)]
                             of (None, os) \<Rightarrow> (Returns result, s1\<lparr>out' := os\<rparr>, w')
                              | (Some e, os) \<Rightarrow>
                                  expect_value_catch pr ident v e (s1\<lparr>out' := os\<rparr>) w'))))"

text \<open>
  \<^verbatim>\<open>expect_true\<close> and \<^verbatim>\<open>expect_false\<close> pass the wrapped callable
  \<^verbatim>\<open>[&t] { return !!t(); }\<close> on to \<^verbatim>\<open>expect_value\<close> at \<^verbatim>\<open>T = bool\<close>. The inner
  \<^verbatim>\<open>!\<close> is that of the callable's return type, the parameter \<open>lnot\<close>, client code
  that may throw; the outer one negates a \<^verbatim>\<open>bool\<close>. Comparison and printing are those
  of \<^verbatim>\<open>bool\<close>. The filter is called twice on this path: here and again inside
  \<^verbatim>\<open>expect_value\<close>. The destructor of \<^verbatim>\<open>local_iostream_flags\<close> runs however
  \<^verbatim>\<open>expect_value\<close> is left.
\<close>

definition not_not :: "('a \<Rightarrow> bool outcome) \<Rightarrow> ('a, 'w) test \<Rightarrow> (bool, 'w) test" where
  "not_not lnot t w =
     (case t w of
        (Returns x, w') \<Rightarrow>
          (case lnot x of Returns b \<Rightarrow> (Returns (\<not> b), w') | Throws e \<Rightarrow> (Throws e, w'))
      | (Throws e, w') \<Rightarrow> (Throws e, w'))"

definition bool_eq :: "bool \<Rightarrow> bool \<Rightarrow> bool outcome" where
  "bool_eq a b = Returns (a = b)"

definition bool_inserter :: "bool \<Rightarrow> inserter" where
  "bool_inserter b = plain (put_bool b)"

definition expect_true ::
  "('a \<Rightarrow> bool outcome) \<Rightarrow> string \<Rightarrow> ('a, 'w) test \<Rightarrow> UnitTester \<Rightarrow> 'w
     \<Rightarrow> bool outcome \<times> UnitTester \<times> 'w" where
  "expect_true lnot ident t s w =
     (case filter_rejects s ident of
        Throws e \<Rightarrow> (Throws e, s, w)
      | Returns rejected \<Rightarrow>
          if rejected then (Returns False, skip s, w)
          else (let f = local_iostream_flags (out' s);
                    s1 = s\<lparr>out' := stream (out' s) [put_boolalpha]\<rparr>
                in case expect_value bool_eq bool_inserter bool_inserter ident True
                          (not_not lnot t) s1 w of
                     (r, s2, w') \<Rightarrow>
                       (r, s2\<lparr>out' := local_iostream_flags_dtor f (out' s2)\<rparr>, w')))"

definition expect_false ::
  "('a \<Rightarrow> bool outcome) \<Rightarrow> string \<Rightarrow> ('a, 'w) test \<Rightarrow> UnitTester \<Rightarrow> 'w
     \<Rightarrow> bool outcome \<times> UnitTester \<times> 'w" where
  "expect_false lnot ident t s w =
     (case filter_rejects s ident of
        Throws e \<Rightarrow> (Throws e, s, w)
      | Returns rejected \<Rightarrow>
          if rejected then (Returns False, skip s, w)
          else (let f = local_iostream_flags (out' s);
                    s1 = s\<lparr>out' := stream (out' s) [put_boolalpha]\<rparr>
                in case expect_value bool_eq bool_inserter bool_inserter ident False
                          (not_not lnot t) s1 w of
                     (r, s2, w') \<Rightarrow>
                       (r, s2\<lparr>out' := local_iostream_flags_dtor f (out' s2)\<rparr>, w')))"

text \<open>
  \<^verbatim>\<open>expect_in_range\<close>. The parameters \<open>le_min\<close> and \<open>le_max\<close> are \<^verbatim>\<open>operator<=\<close>
  in \<^verbatim>\<open>min <= test_value\<close> and in \<^verbatim>\<open>test_value <= max\<close>; \<^verbatim>\<open>&&\<close> does not
  evaluate the second when the first is false.
\<close>

definition in_range ::
  "('a \<Rightarrow> 'b \<Rightarrow> bool outcome) \<Rightarrow> ('b \<Rightarrow> 'a \<Rightarrow> bool outcome) \<Rightarrow> 'a \<Rightarrow> 'b \<Rightarrow> 'a \<Rightarrow> bool outcome" where
  "in_range le_min le_max mn x mx =
     (case le_min mn x of
        Throws e \<Rightarrow> Throws e
      | Returns a \<Rightarrow> if a then le_max x mx else Returns False)"

definition expect_in_range_catch ::
  "('a \<Rightarrow> inserter) \<Rightarrow> string \<Rightarrow> 'a \<Rightarrow> 'a \<Rightarrow> fault \<Rightarrow> UnitTester \<Rightarrow> 'w
     \<Rightarrow> bool outcome \<times> UnitTester \<times> 'w" where
  "expect_in_range_catch pr ident mn mx e s w =
     (let s1 = fail' ident s
      in case try_stream (out' s1)
                (case e of
                   Std_exception ty what \<Rightarrow>
                     [plain (put ''  expected a value in [''), put_value pr mn,
                      plain (put '', ''), put_value pr mx,
                      plain (put ''], got exception: ''), plain (put what), plain (put nl)]
                 | Non_standard ty \<Rightarrow>
                     [plain (put ''  expected a value in [''), put_value pr mn,
                      plain (put '', ''), put_value pr mx,
                      plain (put ''], got exception not derived from std::exception''),
                      plain (put nl)])
         of (None, os) \<Rightarrow> (Returns False, s1\<lparr>out' := os\<rparr>, w)
          | (Some e', os) \<Rightarrow> (Throws e', s1\<lparr>out' := os\<rparr>, w))"

definition expect_in_range ::
  "('a \<Rightarrow> 'b \<Rightarrow> bool outcome) \<Rightarrow> ('b \<Rightarrow> 'a \<Rightarrow> bool outcome) \<Rightarrow> ('a \<Rightarrow> inserter)
     \<Rightarrow> ('b \<Rightarrow> inserter) \<Rightarrow> string \<Rightarrow> 'a \<Rightarrow> 'a \<Rightarrow> ('b, 'w) test \<Rightarrow> UnitTester \<Rightarrow> 'w
     \<Rightarrow> bool outcome \<times> UnitTester \<times> 'w" where
  "expect_in_range le_min le_max pr pr' ident mn mx t s w =
     (case filter_rejects s ident of
        Throws e \<Rightarrow> (Throws e, s, w)
      | Returns rejected \<Rightarrow>
          if rejected then (Returns False, skip s, w)
          else (case t w of
             (Throws e, w') \<Rightarrow> expect_in_range_catch pr ident mn mx e s w'
           | (Returns test_value, w') \<Rightarrow>
               (case in_range le_min le_max mn test_value mx of
                  Throws e \<Rightarrow> expect_in_range_catch pr ident mn mx e s w'
                | Returns result \<Rightarrow>
                    if result then (Returns result, pass' ident s, w')
                    else (let s1 = fail' ident s
                          in case try_stream (out' s1)
                                    [plain (put ''  value ''), put_value pr' test_value,
                                     plain (put '' is not in expected range [''),
                                     put_value pr mn, plain (put '', ''), put_value pr mx,
                                     plain (put '']''), plain (put nl)]
                             of (None, os) \<Rightarrow> (Returns result, s1\<lparr>out' := os\<rparr>, w')
                              | (Some e, os) \<Rightarrow>
                                  expect_in_range_catch pr ident mn mx e
                                    (s1\<lparr>out' := os\<rparr>) w'))))"

definition expect_any_exception ::
  "string \<Rightarrow> ('a, 'w) test \<Rightarrow> UnitTester \<Rightarrow> 'w \<Rightarrow> bool outcome \<times> UnitTester \<times> 'w" where
  "expect_any_exception ident t s w =
     (case filter_rejects s ident of
        Throws e \<Rightarrow> (Throws e, s, w)
      | Returns rejected \<Rightarrow>
          if rejected then (Returns False, skip s, w)
          else (let (exception_happened, w') =
                      (case t w of
                         (Returns x, w') \<Rightarrow> (False, w')
                       | (Throws e, w') \<Rightarrow> (True, w'))
                in if exception_happened then (Returns exception_happened, pass' ident s, w')
                   else (let s1 = fail' ident s
                         in (Returns exception_happened,
                             s1\<lparr>out' := stream (out' s1)
                               [put ''  expected exception was not thrown.'', put nl]\<rparr>,
                             w'))))"

text \<open>
  The template parameter \<^verbatim>\<open>Except\<close> is the predicate \<open>except\<close>: the faults that
  \<^verbatim>\<open>catch (Except& e)\<close> matches.
\<close>

definition expect_exception ::
  "(fault \<Rightarrow> bool) \<Rightarrow> string \<Rightarrow> ('a, 'w) test \<Rightarrow> UnitTester \<Rightarrow> 'w
     \<Rightarrow> bool outcome \<times> UnitTester \<times> 'w" where
  "expect_exception except ident t s w =
     (case filter_rejects s ident of
        Throws e \<Rightarrow> (Throws e, s, w)
      | Returns rejected \<Rightarrow>
          if rejected then (Returns False, skip s, w)
          else (let (exception_happened, other_exception_happened, w') =
                      (case t w of
                         (Returns x, w') \<Rightarrow> (False, False, w')
                       | (Throws e, w') \<Rightarrow>
                           if except e then (True, False, w') else (False, True, w'))
                in if exception_happened then (Returns exception_happened, pass' ident s, w')
                   else if other_exception_happened
                   then (let s1 = fail' ident s
                         in (Returns exception_happened,
                             s1\<lparr>out' := stream (out' s1)
                               [put ''  an exception happened but not of the correct type.'',
                                put nl]\<rparr>,
                             w'))
                   else (let s1 = fail' ident s
                         in (Returns exception_happened,
                             s1\<lparr>out' := stream (out' s1)
                               [put ''  expected exception was not thrown.'', put nl]\<rparr>,
                             w'))))"

section \<open>The named handle\<close>

text \<open>
  \<^verbatim>\<open>UnitTestNamer\<close> holds a reference to the session and a copy of the identifier.
  With the session state passed explicitly, the reference is the state its methods are
  applied to; the handle itself is the identifier.
\<close>

record UnitTestNamer =
  namer_id :: string

text \<open>\<^verbatim>\<open>operator()\<close> of the session.\<close>

definition call_operator :: "UnitTester \<Rightarrow> string \<Rightarrow> UnitTestNamer" where
  "call_operator s i = \<lparr>namer_id = i\<rparr>"

definition namer_expect_true ::
  "UnitTestNamer \<Rightarrow> ('a \<Rightarrow> bool outcome) \<Rightarrow> ('a, 'w) test \<Rightarrow> UnitTester \<Rightarrow> 'w
     \<Rightarrow> bool outcome \<times> UnitTester \<times> 'w" where
  "namer_expect_true n lnot t tester w = expect_true lnot (namer_id n) t tester w"

definition namer_expect_false ::
  "UnitTestNamer \<Rightarrow> ('a \<Rightarrow> bool outcome) \<Rightarrow> ('a, 'w) test \<Rightarrow> UnitTester \<Rightarrow> 'w
     \<Rightarrow> bool outcome \<times> UnitTester \<times> 'w" where
  "namer_expect_false n lnot t tester w = expect_false lnot (namer_id n) t tester w"

definition namer_expect_value ::
  "UnitTestNamer \<Rightarrow> ('b \<Rightarrow> 'a \<Rightarrow> bool outcome) \<Rightarrow> ('a \<Rightarrow> inserter) \<Rightarrow> ('b \<Rightarrow> inserter) \<Rightarrow> 'a
     \<Rightarrow> ('b, 'w) test \<Rightarrow> UnitTester \<Rightarrow> 'w \<Rightarrow> bool outcome \<times> UnitTester \<times> 'w" where
  "namer_expect_value n eq pr pr' v t tester w =
     expect_value eq pr pr' (namer_id n) v t tester w"

definition namer_expect_in_range ::
  "UnitTestNamer \<Rightarrow> ('a \<Rightarrow> 'b \<Rightarrow> bool outcome) \<Rightarrow> ('b \<Rightarrow> 'a \<Rightarrow> bool outcome)
     \<Rightarrow> ('a \<Rightarrow> inserter) \<Rightarrow> ('b \<Rightarrow> inserter) \<Rightarrow> 'a \<Rightarrow> 'a \<Rightarrow> ('b, 'w) test \<Rightarrow> UnitTester \<Rightarrow> 'w
     \<Rightarrow> bool outcome \<times> UnitTester \<times> 'w" where
  "namer_expect_in_range n le_min le_max pr pr' mn mx t tester w =
     expect_in_range le_min le_max pr pr' (namer_id n) mn mx t tester w"

definition namer_expect_any_exception ::
  "UnitTestNamer \<Rightarrow> ('a, 'w) test \<Rightarrow> UnitTester \<Rightarrow> 'w \<Rightarrow> bool outcome \<times> UnitTester \<times> 'w" where
  "namer_expect_any_exception n t tester w = expect_any_exception (namer_id n) t tester w"

definition namer_expect_exception ::
  "UnitTestNamer \<Rightarrow> (fault \<Rightarrow> bool) \<Rightarrow> ('a, 'w) test \<Rightarrow> UnitTester \<Rightarrow> 'w
     \<Rightarrow> bool outcome \<times> UnitTester \<times> 'w" where
  "namer_expect_exception n except t tester w =
     expect_exception except (namer_id n) t tester w"

section \<open>Sequences of calls\<close>

text \<open>
  A client program is a sequence of calls on one session: the six assertions, at a value
  type \<open>'a\<close> and a result type \<open>'b\<close> of the unit under test, and the other public
  methods. The client goes on with the session as a call leaves it, whether the call
  returned or threw.
\<close>

datatype ('a, 'b, 'w) assertion =
  Expect_true "'b \<Rightarrow> bool outcome" string "('b, 'w) test"
  | Expect_false "'b \<Rightarrow> bool outcome" string "('b, 'w) test"
  | Expect_value "'b \<Rightarrow> 'a \<Rightarrow> bool outcome" "'a \<Rightarrow> inserter" "'b \<Rightarrow> inserter" string 'a
      "('b, 'w) test"
  | Expect_in_range "'a \<Rightarrow> 'b \<Rightarrow> bool outcome" "'b \<Rightarrow> 'a \<Rightarrow> bool outcome" "'a \<Rightarrow> inserter"
      "'b \<Rightarrow> inserter" string 'a 'a "('b, 'w) test"
  | Expect_any_exception string "('b, 'w) test"
  | Expect_exception "fault \<Rightarrow> bool" string "('b, 'w) test"

datatype ('a, 'b, 'w) call =
  Assertion "('a, 'b, 'w) assertion"
  | Color_output bool
  | Hide_pass
  | Show_pass
  | Only_if "(string \<Rightarrow> bool outcome) option"
  | Always
  | Summary

fun run_assertion ::
  "('a, 'b, 'w) assertion \<Rightarrow> UnitTester \<Rightarrow> 'w \<Rightarrow> bool outcome \<times> UnitTester \<times> 'w" where
  "run_assertion (Expect_true lnot i t) s w = expect_true lnot i t s w"
| "run_assertion (Expect_false lnot i t) s w = expect_false lnot i t s w"
| "run_assertion (Expect_value eq pr pr' i v t) s w = expect_value eq pr pr' i v t s w"
| "run_assertion (Expect_in_range le_min le_max pr pr' i mn mx t) s w =
     expect_in_range le_min le_max pr pr' i mn mx t s w"
| "run_assertion (Expect_any_exception i t) s w = expect_any_exception i t s w"
| "run_assertion (Expect_exception except i t) s w = expect_exception except i t s w"

fun run_call :: "('a, 'b, 'w) call \<Rightarrow> UnitTester \<times> 'w \<Rightarrow> UnitTester \<times> 'w" where
  "run_call (Assertion a) (s, w) = snd (run_assertion a s w)"
| "run_call (Color_output c) (s, w) = (color_output_set c s, w)"
| "run_call Hide_pass (s, w) = (hide_pass s, w)"
| "run_call Show_pass (s, w) = (show_pass s, w)"
| "run_call (Only_if f) (s, w) = (only_if f s, w)"
| "run_call Always (s, w) = (always s, w)"
| "run_call Summary (s, w) = (summary s, w)"

definition run_calls :: "('a, 'b, 'w) call list \<Rightarrow> UnitTester \<times> 'w \<Rightarrow> UnitTester \<times> 'w" where
  "run_calls cs sw = fold run_call cs sw"

fun is_assertion :: "('a, 'b, 'w) call \<Rightarrow> bool" where
  "is_assertion (Assertion a) = True"
| "is_assertion c = False"

section \<open>Vocabulary of the properties\<close>

text \<open>
  The stream with some characters appended; the lines that \<^verbatim>\<open>pass_\<close> and \<^verbatim>\<open>fail_\<close>
  write for an identifier, character by character; and the session after an assertion
  has recorded a PASS, or a FAIL followed by one diagnostic line of fixed text.
  \<open>records_pass\<close> and \<open>records_fail\<close> change one counter and the written characters,
  nothing else.
\<close>

definition appended :: "string \<Rightarrow> ostream \<Rightarrow> ostream" where
  "appended cs os = os\<lparr>written := written os @ cs\<rparr>"

definition pass_line :: "UnitTester \<Rightarrow> string \<Rightarrow> string" where
  "pass_line s i =
     (if color_output' s then CHR 0x1B # ''[32m'' else []) @
     [CHR 0xE2, CHR 0x98, CHR 0x91] @ ''  PASS  '' @
     (if color_output' s then CHR 0x1B # ''[0m'' else []) @ i @ [CHR 0x0A]"

definition fail_line :: "UnitTester \<Rightarrow> string \<Rightarrow> string" where
  "fail_line s i =
     (if color_output' s then CHR 0x1B # ''[31m'' else []) @
     [CHR 0xE2, CHR 0x98, CHR 0x92] @ ''  FAIL  '' @
     (if color_output' s then CHR 0x1B # ''[0m'' else []) @ i @ [CHR 0x0A]"

definition records_pass :: "UnitTester \<Rightarrow> string \<Rightarrow> UnitTester" where
  "records_pass s i =
     s\<lparr>count_pass' := count_pass' s + 1,
       out' := appended (if hide_pass' s then [] else pass_line s i) (out' s)\<rparr>"

definition records_fail :: "UnitTester \<Rightarrow> string \<Rightarrow> string \<Rightarrow> UnitTester" where
  "records_fail s i diagnostic =
     s\<lparr>count_fail' := count_fail' s + 1,
       out' := appended (fail_line s i @ diagnostic @ [CHR 0x0A]) (out' s)\<rparr>"

text \<open>The part of a diagnostic that reports a caught fault.\<close>

definition exception_text :: "fault \<Rightarrow> string" where
  "exception_text e =
     (case e of
        Std_exception ty what \<Rightarrow> ''got exception: '' @ what
      | Non_standard ty \<Rightarrow> ''got exception not derived from std::exception'')"

text \<open>
  Properties of an \<^verbatim>\<open>operator<<\<close> at a value: it does not throw; it leaves the flags
  of the stream as they were.
\<close>

definition never_throws :: "('a \<Rightarrow> inserter) \<Rightarrow> 'a \<Rightarrow> bool" where
  "never_throws pr v \<longleftrightarrow> (\<forall>os. fst (pr v os) = None)"

definition keeps_flags :: "('a \<Rightarrow> inserter) \<Rightarrow> 'a \<Rightarrow> bool" where
  "keeps_flags pr v \<longleftrightarrow> (\<forall>os. flags (snd (pr v os)) = flags os)"

text \<open>
  One of the three counters is one more (in \<^verbatim>\<open>uintmax_t\<close> arithmetic, where
  \<open>c + 1 \<noteq> c\<close>) and the other two are as before.
\<close>

definition increments_exactly_one :: "UnitTester \<Rightarrow> UnitTester \<Rightarrow> bool" where
  "increments_exactly_one s s' \<longleftrightarrow>
     (count_pass' s' = count_pass' s + 1 \<and> count_fail' s' = count_fail' s \<and>
      count_skip' s' = count_skip' s) \<or>
     (count_pass' s' = count_pass' s \<and> count_fail' s' = count_fail' s + 1 \<and>
      count_skip' s' = count_skip' s) \<or>
     (count_pass' s' = count_pass' s \<and> count_fail' s' = count_fail' s \<and>
      count_skip' s' = count_skip' s + 1)"

text \<open>The three counters, and their sum as a natural number.\<close>

definition counters :: "UnitTester \<Rightarrow> 64 word \<times> 64 word \<times> 64 word" where
  "counters s = (count_pass' s, count_fail' s, count_skip' s)"

definition counters_sum :: "UnitTester \<Rightarrow> nat" where
  "counters_sum s = unat (count_pass' s) + unat (count_fail' s) + unat (count_skip' s)"

definition assertion_calls :: "('a, 'b, 'w) call list \<Rightarrow> nat" where
  "assertion_calls cs = length (filter is_assertion cs)"

text \<open>
  Client code that does not throw: a filter that returns a verdict for every identifier,
  and an assertion whose \<^verbatim>\<open>operator<<\<close> of the printed values never throws.
\<close>

definition total_filter :: "(string \<Rightarrow> bool outcome) option \<Rightarrow> bool" where
  "total_filter fo \<longleftrightarrow> (case fo of None \<Rightarrow> True | Some f \<Rightarrow> \<forall>i. \<exists>b. f i = Returns b)"

fun quiet_assertion :: "('a, 'b, 'w) assertion \<Rightarrow> bool" where
  "quiet_assertion (Expect_value eq pr pr' i v t) \<longleftrightarrow>
     (\<forall>x. never_throws pr x) \<and> (\<forall>x. never_throws pr' x)"
| "quiet_assertion (Expect_in_range le_min le_max pr pr' i mn mx t) \<longleftrightarrow>
     (\<forall>x. never_throws pr x) \<and> (\<forall>x. never_throws pr' x)"
| "quiet_assertion a \<longleftrightarrow> True"

fun quiet_call :: "('a, 'b, 'w) call \<Rightarrow> bool" where
  "quiet_call (Assertion a) \<longleftrightarrow> quiet_assertion a"
| "quiet_call (Only_if f) \<longleftrightarrow> total_filter f"
| "quiet_call c \<longleftrightarrow> True"

text \<open>The three lines of \<^verbatim>\<open>summary\<close>, character by character, and the text it appends.\<close>

definition skipped_line :: "UnitTester \<Rightarrow> string" where
  "skipped_line s =
     num_put (out' s) (flags (out' s)) (count_skip' s) @ '' tests skipped.'' @ [CHR 0x0A]"

definition passed_line :: "UnitTester \<Rightarrow> string" where
  "passed_line s =
     num_put (out' s) (flags (out' s)) (count_pass' s) @ '' tests passed.'' @ [CHR 0x0A]"

definition failed_line :: "UnitTester \<Rightarrow> string" where
  "failed_line s =
     num_put (out' s) (flags (out' s)) (count_fail' s) @ '' tests '' @
     (if color_output' s then CHR 0x1B # ''[31m'' else []) @ ''FAILED !'' @
     (if color_output' s then CHR 0x1B # ''[0m'' else []) @ [CHR 0x0A]"

definition summary_text :: "UnitTester \<Rightarrow> string" where
  "summary_text s =
     (if 0 < count_skip' s then skipped_line s else []) @ passed_line s @
     (if 0 < count_fail' s then failed_line s else [])"

section \<open>Concrete inputs\<close>

text \<open>
  A \<^verbatim>\<open>num_put\<close> that renders in base 16 when the uninterpreted flags are 1 (standing
  for \<^verbatim>\<open>std::hex\<close>) and in base 10 otherwise, and a stream with it to which nothing was
  written.
\<close>

definition digit_char :: "nat \<Rightarrow> char" where
  "digit_char d = ''0123456789abcdef'' ! d"

function show_base :: "nat \<Rightarrow> nat \<Rightarrow> string" where
  "show_base b n =
     (if n < b \<or> b < 2 then [digit_char n]
      else show_base b (n div b) @ [digit_char (n mod b)])"
  by pat_completeness auto
termination
  by (relation "measure (\<lambda>(b, n). n)") auto

declare show_base.simps [simp del]

definition base_put :: "fmtflags \<Rightarrow> 64 word \<Rightarrow> string" where
  "base_put f c = show_base (if other_flags f = 1 then 16 else 10) (unat c)"

definition fresh_stream :: ostream where
  "fresh_stream =
     \<lparr>written = [], flags = \<lparr>boolalpha = False, other_flags = 0\<rparr>, num_put = base_put\<rparr>"

text \<open>
  Operators of the value type \<^verbatim>\<open>unsigned\<close>: comparisons; an \<^verbatim>\<open>operator<<\<close> that
  writes decimal digits; one that throws; one that leaves \<^verbatim>\<open>std::hex\<close> set. And an
  \<^verbatim>\<open>operator==\<close> under which the value 0 is unequal to itself, as a NaN is.
\<close>

definition nat_eq :: "nat \<Rightarrow> nat \<Rightarrow> bool outcome" where
  "nat_eq a b = Returns (a = b)"

definition nat_le :: "nat \<Rightarrow> nat \<Rightarrow> bool outcome" where
  "nat_le a b = Returns (a \<le> b)"

definition nan_eq :: "nat \<Rightarrow> nat \<Rightarrow> bool outcome" where
  "nan_eq a b = Returns (a = b \<and> a \<noteq> 0)"

definition is_zero :: "nat \<Rightarrow> bool outcome" where
  "is_zero n = Returns (n = 0)"

definition nat_inserter :: "nat \<Rightarrow> inserter" where
  "nat_inserter n = plain (put (show_base 10 n))"

definition throwing_inserter :: "nat \<Rightarrow> inserter" where
  "throwing_inserter n os = (Some (Std_exception ''std::ios_base::failure'' ''no output''), os)"

definition hex_inserter :: "nat \<Rightarrow> inserter" where
  "hex_inserter n os =
     (None, put (show_base 16 n) (os\<lparr>flags := (flags os)\<lparr>other_flags := 1\<rparr>\<rparr>))"

text \<open>Units under test that count their invocations in the world; filters; a handler.\<close>

definition throwing_test :: "fault \<Rightarrow> (nat, nat) test" where
  "throwing_test e w = (Throws e, Suc w)"

definition returning_test :: "nat \<Rightarrow> (nat, nat) test" where
  "returning_test x w = (Returns x, Suc w)"

definition only_named :: "string \<Rightarrow> string \<Rightarrow> bool outcome" where
  "only_named n i = Returns (i = n)"

definition throwing_filter :: "string \<Rightarrow> bool outcome" where
  "throwing_filter i = Throws (Non_standard ''int'')"

definition is_logic_error :: "fault \<Rightarrow> bool" where
  "is_logic_error e =
     (case e of Std_exception ty what \<Rightarrow> ty = ''std::logic_error'' | Non_standard ty \<Rightarrow> False)"

definition example_calls :: "(nat, nat, nat) call list" where
  "example_calls =
     [Assertion (Expect_value nat_eq nat_inserter nat_inserter ''a'' 1 (returning_test 1)),
      Hide_pass,
      Assertion (Expect_true is_zero ''b'' (returning_test 0)),
      Only_if (Some (only_named ''a'')),
      Assertion (Expect_any_exception ''c'' (returning_test 0)),
      Summary,
      Assertion (Expect_in_range nat_le nat_le nat_inserter nat_inserter ''a'' 0 10
        (returning_test 10))]"

section \<open>Insertions\<close>

lemmas io_defs = stream_def put_def put_uintmax_def put_bool_def put_boolalpha_def
  local_iostream_flags_def local_iostream_flags_dtor_def

lemma put_appended: "put cs os = appended cs os"
  by (simp add: put_def appended_def)

lemma appended_appended [simp]: "appended bs (appended as os) = appended (as @ bs) os"
  by (simp add: appended_def)

lemma appended_fields [simp]:
  "written (appended cs os) = written os @ cs"
  "flags (appended cs os) = flags os"
  "num_put (appended cs os) = num_put os"
  by (simp_all add: appended_def)

lemma try_stream_plain [simp]:
  "try_stream os (plain f # fs) = try_stream (f os) fs"
  by (simp add: plain_def)

declare try_stream.simps(2) [simp del]

lemma try_stream_value:
  "fst (pr v os) = None \<Longrightarrow>
   try_stream os (put_value pr v # fs) = try_stream (snd (pr v os)) fs"
  by (cases "pr v os") (simp add: put_value_def try_stream.simps(2))

lemma try_stream_value_throws:
  "fst (pr v os) = Some e \<Longrightarrow>
   try_stream os (put_value pr v # fs) = (Some e, snd (pr v os))"
  by (cases "pr v os") (simp add: put_value_def try_stream.simps(2))

lemma try_stream_value_never [simp]:
  "never_throws pr v \<Longrightarrow>
   try_stream os (put_value pr v # fs) = try_stream (snd (pr v os)) fs"
  by (simp add: try_stream_value never_throws_def)

lemma try_stream_flags:
  "(\<And>f os. f \<in> set fs \<Longrightarrow> flags (snd (f os)) = flags os) \<Longrightarrow>
   flags (snd (try_stream os fs)) = flags os"
proof (induction fs arbitrary: os)
  case Nil
  then show ?case by simp
next
  case (Cons f fs)
  have step: "flags (snd (f os)) = flags os" using Cons.prems by simp
  have rest: "flags (snd (try_stream (snd (f os)) fs)) = flags (snd (f os))"
    using Cons.IH [of "snd (f os)"] Cons.prems by simp
  show ?case
  proof (cases "f os")
    case (Pair r os')
    with step rest show ?thesis by (cases r) (simp_all add: try_stream.simps(2))
  qed
qed

lemma plain_put_flags [simp]: "flags (snd (plain (put cs) os)) = flags os"
  by (simp add: plain_def put_def)

lemma put_value_flags [simp]:
  "keeps_flags pr v \<Longrightarrow> flags (snd (put_value pr v os)) = flags os"
  by (simp add: put_value_def keeps_flags_def)

section \<open>What each assertion does\<close>

lemma pass'_records: "pass' i s = records_pass s i"
  by (simp add: pass'_def records_pass_def pass_line_def green'_def reset'_def c_green_def
      c_reset_def pass_label_def nl_def appended_def io_defs Let_def)

lemma fail'_eq:
  "fail' i s = s\<lparr>count_fail' := count_fail' s + 1, out' := appended (fail_line s i) (out' s)\<rparr>"
  by (simp add: fail'_def fail_line_def red'_def reset'_def c_red_def c_reset_def
      fail_label_def nl_def appended_def io_defs Let_def)

lemma fail_line_out' [simp]: "fail_line (s\<lparr>out' := os\<rparr>) i = fail_line s i"
  by (simp add: fail_line_def)

lemma fail_line_count_fail' [simp]: "fail_line (s\<lparr>count_fail' := c\<rparr>) i = fail_line s i"
  by (simp add: fail_line_def)

lemma expect_value_catch_eq:
  assumes "never_throws pr v"
  shows "expect_value_catch pr i v e s w =
     (Returns False,
      s\<lparr>count_fail' := count_fail' s + 1,
        out' := appended ('', '' @ exception_text e @ [CHR 0x0A])
                  (snd (pr v (appended (fail_line s i @ ''  expected value '') (out' s))))\<rparr>,
      w)"
  using assms
  by (cases e)
    (simp_all add: expect_value_catch_def fail'_eq put_appended nl_def exception_text_def)

lemma expect_value_catch_counters:
  "counters (fst (snd (expect_value_catch pr i v e s w))) =
     (count_pass' s, count_fail' s + 1, count_skip' s)"
  by (simp add: expect_value_catch_def fail'_eq counters_def Let_def
      split: prod.splits option.splits)

lemma expect_value_catch_throws:
  assumes "fst (pr v (appended (fail_line s i @ ''  expected value '') (out' s))) = Some e'"
  shows "fst (expect_value_catch pr i v e s w) = Throws e'"
proof -
  from assms obtain os' where
    "pr v (appended (fail_line s i @ ''  expected value '') (out' s)) = (Some e', os')"
    by (cases "pr v (appended (fail_line s i @ ''  expected value '') (out' s))") simp
  then show ?thesis
    by (cases e)
      (simp_all add: expect_value_catch_def fail'_eq put_appended try_stream_value_throws)
qed

lemma expect_value_guard_throws:
  "filter_rejects s i = Throws e \<Longrightarrow> expect_value eq pr pr' i v t s w = (Throws e, s, w)"
  by (simp add: expect_value_def)

lemma expect_value_skips:
  "filter_rejects s i = Returns True \<Longrightarrow>
   expect_value eq pr pr' i v t s w = (Returns False, skip s, w)"
  by (simp add: expect_value_def)

lemma expect_value_throws:
  assumes "filter_rejects s i = Returns False" and "t w = (Throws e, w')"
  shows "expect_value eq pr pr' i v t s w = expect_value_catch pr i v e s w'"
  using assms by (simp add: expect_value_def)

lemma expect_value_passes:
  assumes "filter_rejects s i = Returns False" and "t w = (Returns x, w')"
    and "eq x v = Returns True"
  shows "expect_value eq pr pr' i v t s w = (Returns True, records_pass s i, w')"
  using assms by (simp add: expect_value_def pass'_records)

lemma expect_value_fails:
  assumes "filter_rejects s i = Returns False" and "t w = (Returns x, w')"
    and "eq x v = Returns False" and "never_throws pr v" and "never_throws pr' x"
  shows "expect_value eq pr pr' i v t s w =
     (Returns False,
      s\<lparr>count_fail' := count_fail' s + 1,
        out' := appended ('' instead.'' @ [CHR 0x0A])
                  (snd (pr' x (appended '', found ''
                    (snd (pr v (appended (fail_line s i @ ''  expected value '') (out' s)))))))\<rparr>,
      w')"
  using assms
  by (simp add: expect_value_def fail'_eq put_appended nl_def Let_def)

lemma expect_in_range_catch_eq:
  assumes "never_throws pr mn" and "never_throws pr mx"
  shows "expect_in_range_catch pr i mn mx e s w =
     (Returns False,
      s\<lparr>count_fail' := count_fail' s + 1,
        out' := appended (''], '' @ exception_text e @ [CHR 0x0A])
                  (snd (pr mx (appended '', ''
                    (snd (pr mn
                      (appended (fail_line s i @ ''  expected a value in ['') (out' s)))))))\<rparr>,
      w)"
  using assms
  by (cases e)
    (simp_all add: expect_in_range_catch_def fail'_eq put_appended nl_def exception_text_def)

lemma expect_in_range_catch_counters:
  "counters (fst (snd (expect_in_range_catch pr i mn mx e s w))) =
     (count_pass' s, count_fail' s + 1, count_skip' s)"
  by (simp add: expect_in_range_catch_def fail'_eq counters_def Let_def
      split: prod.splits option.splits)

lemma expect_in_range_guard_throws:
  "filter_rejects s i = Throws e \<Longrightarrow>
   expect_in_range le_min le_max pr pr' i mn mx t s w = (Throws e, s, w)"
  by (simp add: expect_in_range_def)

lemma expect_in_range_skips:
  "filter_rejects s i = Returns True \<Longrightarrow>
   expect_in_range le_min le_max pr pr' i mn mx t s w = (Returns False, skip s, w)"
  by (simp add: expect_in_range_def)

lemma expect_in_range_throws:
  assumes "filter_rejects s i = Returns False" and "t w = (Throws e, w')"
  shows "expect_in_range le_min le_max pr pr' i mn mx t s w =
     expect_in_range_catch pr i mn mx e s w'"
  using assms by (simp add: expect_in_range_def)

lemma expect_in_range_passes:
  assumes "filter_rejects s i = Returns False" and "t w = (Returns x, w')"
    and "in_range le_min le_max mn x mx = Returns True"
  shows "expect_in_range le_min le_max pr pr' i mn mx t s w =
     (Returns True, records_pass s i, w')"
  using assms by (simp add: expect_in_range_def pass'_records)

lemma expect_in_range_fails:
  assumes "filter_rejects s i = Returns False" and "t w = (Returns x, w')"
    and "in_range le_min le_max mn x mx = Returns False"
    and "never_throws pr' x" and "never_throws pr mn" and "never_throws pr mx"
  shows "expect_in_range le_min le_max pr pr' i mn mx t s w =
     (Returns False,
      s\<lparr>count_fail' := count_fail' s + 1,
        out' := appended ('']'' @ [CHR 0x0A])
                  (snd (pr mx (appended '', ''
                    (snd (pr mn (appended '' is not in expected range [''
                      (snd (pr' x (appended (fail_line s i @ ''  value '') (out' s))))))))))\<rparr>,
      w')"
  using assms
  by (simp add: expect_in_range_def fail'_eq put_appended nl_def Let_def)

lemma expect_any_exception_guard_throws:
  "filter_rejects s i = Throws e \<Longrightarrow> expect_any_exception i t s w = (Throws e, s, w)"
  by (simp add: expect_any_exception_def)

lemma expect_any_exception_skips:
  "filter_rejects s i = Returns True \<Longrightarrow>
   expect_any_exception i t s w = (Returns False, skip s, w)"
  by (simp add: expect_any_exception_def)

lemma expect_any_exception_run:
  assumes "filter_rejects s i = Returns False" and "t w = (r, w')"
  shows "expect_any_exception i t s w =
     (case r of Throws e \<Rightarrow> (Returns True, records_pass s i, w')
      | Returns x \<Rightarrow>
          (Returns False, records_fail s i ''  expected exception was not thrown.'', w'))"
  using assms
  by (simp add: expect_any_exception_def pass'_records records_fail_def fail'_eq
      stream_def put_appended nl_def Let_def split: outcome.splits)

lemma expect_exception_guard_throws:
  "filter_rejects s i = Throws e \<Longrightarrow> expect_exception ex i t s w = (Throws e, s, w)"
  by (simp add: expect_exception_def)

lemma expect_exception_skips:
  "filter_rejects s i = Returns True \<Longrightarrow>
   expect_exception ex i t s w = (Returns False, skip s, w)"
  by (simp add: expect_exception_def)

lemma expect_exception_run:
  assumes "filter_rejects s i = Returns False" and "t w = (r, w')"
  shows "expect_exception ex i t s w =
     (case r of
        Throws e \<Rightarrow>
          if ex e then (Returns True, records_pass s i, w')
          else (Returns False,
                records_fail s i ''  an exception happened but not of the correct type.'', w')
      | Returns x \<Rightarrow>
          (Returns False, records_fail s i ''  expected exception was not thrown.'', w'))"
  using assms
  by (simp add: expect_exception_def pass'_records records_fail_def fail'_eq
      stream_def put_appended nl_def Let_def split: outcome.splits)

text \<open>
  \<^verbatim>\<open>expect_true\<close> and \<^verbatim>\<open>expect_false\<close>: the diagnostic is rendered under
  \<^verbatim>\<open>boolalpha\<close>, and the flags saved on entry are back in the resulting stream.
\<close>

lemma bool_inserter_never_throws [simp]: "never_throws bool_inserter b"
  by (simp add: never_throws_def bool_inserter_def plain_def)

lemma bool_inserter_boolalpha:
  "boolalpha (flags os) \<Longrightarrow>
   snd (bool_inserter b os) = appended (if b then ''true'' else ''false'') os"
  by (simp add: bool_inserter_def plain_def put_bool_def put_appended)

lemma filter_rejects_out' [simp]: "filter_rejects (s\<lparr>out' := os\<rparr>) i = filter_rejects s i"
  by (simp add: filter_rejects_def)

lemma restore_records_pass:
  "(records_pass (s\<lparr>out' := (out' s)\<lparr>flags := g\<rparr>\<rparr>) i)\<lparr>out' :=
      (out' (records_pass (s\<lparr>out' := (out' s)\<lparr>flags := g\<rparr>\<rparr>) i))\<lparr>flags := flags (out' s)\<rparr>\<rparr>
   = records_pass s i"
  by (simp add: records_pass_def pass_line_def appended_def)

lemma expect_true_guard_throws:
  "filter_rejects s i = Throws e \<Longrightarrow> expect_true lnot i t s w = (Throws e, s, w)"
  by (simp add: expect_true_def)

lemma expect_false_guard_throws:
  "filter_rejects s i = Throws e \<Longrightarrow> expect_false lnot i t s w = (Throws e, s, w)"
  by (simp add: expect_false_def)

lemma expect_true_skips:
  "filter_rejects s i = Returns True \<Longrightarrow>
   expect_true lnot i t s w = (Returns False, skip s, w)"
  by (simp add: expect_true_def)

lemma expect_false_skips:
  "filter_rejects s i = Returns True \<Longrightarrow>
   expect_false lnot i t s w = (Returns False, skip s, w)"
  by (simp add: expect_false_def)

text \<open>
  What the wrapped callable hands to \<^verbatim>\<open>expect_value\<close>: the truth value of the
  result, or the fault of the unit under test or of its result's \<^verbatim>\<open>operator!\<close>.
\<close>

lemma expect_true_run:
  assumes "filter_rejects s i = Returns False" and "not_not lnot t w = (r, w')"
  shows "expect_true lnot i t s w =
     (case r of
        Returns b \<Rightarrow>
          if b then (Returns True, records_pass s i, w')
          else (Returns False,
                records_fail s i ''  expected value true, found false instead.'', w')
      | Throws e \<Rightarrow>
          (Returns False,
           records_fail s i (''  expected value true, '' @ exception_text e), w'))"
proof (cases r)
  case (Returns b)
  show ?thesis
  proof (cases b)
    case True
    with assms Returns show ?thesis
      by (simp add: expect_true_def io_defs bool_eq_def restore_records_pass
          expect_value_passes [where x = True])
  next
    case False
    with assms Returns show ?thesis
      by (simp add: expect_true_def io_defs bool_eq_def records_fail_def fail_line_def
          expect_value_fails [where x = False] bool_inserter_boolalpha appended_def)
  qed
next
  case (Throws e)
  with assms show ?thesis
    by (simp add: expect_true_def io_defs records_fail_def fail_line_def
        expect_value_throws expect_value_catch_eq bool_inserter_boolalpha appended_def)
qed

lemma expect_false_run:
  assumes "filter_rejects s i = Returns False" and "not_not lnot t w = (r, w')"
  shows "expect_false lnot i t s w =
     (case r of
        Returns b \<Rightarrow>
          if \<not> b then (Returns True, records_pass s i, w')
          else (Returns False,
                records_fail s i ''  expected value false, found true instead.'', w')
      | Throws e \<Rightarrow>
          (Returns False,
           records_fail s i (''  expected value false, '' @ exception_text e), w'))"
proof (cases r)
  case (Returns b)
  show ?thesis
  proof (cases b)
    case False
    with assms Returns show ?thesis
      by (simp add: expect_false_def io_defs bool_eq_def restore_records_pass
          expect_value_passes [where x = False])
  next
    case True
    with assms Returns show ?thesis
      by (simp add: expect_false_def io_defs bool_eq_def records_fail_def fail_line_def
          expect_value_fails [where x = True] bool_inserter_boolalpha appended_def)
  qed
next
  case (Throws e)
  with assms show ?thesis
    by (simp add: expect_false_def io_defs records_fail_def fail_line_def
        expect_value_throws expect_value_catch_eq bool_inserter_boolalpha appended_def)
qed

section \<open>Counters, filter and flags after an assertion\<close>

lemma total_filter_returns:
  "total_filter (filter' s) \<Longrightarrow> \<exists>b. filter_rejects s i = Returns b"
proof (cases "filter' s")
  case None
  then have "filter_rejects s i = Returns False" by (simp add: filter_rejects_def)
  then show ?thesis ..
next
  case (Some f)
  assume "total_filter (filter' s)"
  with Some obtain b where "f i = Returns b" by (auto simp: total_filter_def)
  with Some have "filter_rejects s i = Returns (\<not> b)" by (simp add: filter_rejects_def)
  then show ?thesis ..
qed

lemma counters_fail_increments:
  "counters s' = (count_pass' s, count_fail' s + 1, count_skip' s) \<Longrightarrow>
   increments_exactly_one s s'"
  by (simp add: counters_def increments_exactly_one_def)

lemma records_pass_increments: "increments_exactly_one s (records_pass s i)"
  by (simp add: increments_exactly_one_def records_pass_def)

lemma records_fail_increments: "increments_exactly_one s (records_fail s i d)"
  by (simp add: increments_exactly_one_def records_fail_def)

lemma skip_increments: "increments_exactly_one s (skip s)"
  by (simp add: increments_exactly_one_def skip_def)

lemmas increments_simps = records_pass_increments records_fail_increments skip_increments

lemma expect_value_increments:
  assumes "filter_rejects s i = Returns b"
    and "\<And>x. never_throws pr x" and "\<And>x. never_throws pr' x"
  shows "increments_exactly_one s (fst (snd (expect_value eq pr pr' i v t s w)))"
proof (cases b)
  case True
  with assms(1) show ?thesis by (simp add: expect_value_skips increments_simps)
next
  case False
  with assms(1) have g: "filter_rejects s i = Returns False" by simp
  obtain r w' where tw: "t w = (r, w')" by (cases "t w")
  show ?thesis
  proof (cases r)
    case (Throws e)
    with g tw show ?thesis
      by (simp add: expect_value_throws counters_fail_increments expect_value_catch_counters)
  next
    case (Returns x)
    show ?thesis
    proof (cases "eq x v")
      case (Throws e)
      with g tw Returns show ?thesis
        by (simp add: expect_value_def counters_fail_increments expect_value_catch_counters)
    next
      case eqr: (Returns c)
      show ?thesis
      proof (cases c)
        case True
        with g tw Returns eqr show ?thesis
          by (simp add: expect_value_passes increments_simps)
      next
        case False
        with g tw Returns eqr assms(2,3) show ?thesis
          by (simp add: expect_value_fails increments_exactly_one_def)
      qed
    qed
  qed
qed

lemma expect_in_range_increments:
  assumes "filter_rejects s i = Returns b"
    and "\<And>x. never_throws pr x" and "\<And>x. never_throws pr' x"
  shows "increments_exactly_one s
     (fst (snd (expect_in_range le_min le_max pr pr' i mn mx t s w)))"
proof (cases b)
  case True
  with assms(1) show ?thesis by (simp add: expect_in_range_skips increments_simps)
next
  case False
  with assms(1) have g: "filter_rejects s i = Returns False" by simp
  obtain r w' where tw: "t w = (r, w')" by (cases "t w")
  show ?thesis
  proof (cases r)
    case (Throws e)
    with g tw show ?thesis
      by (simp add: expect_in_range_throws counters_fail_increments
          expect_in_range_catch_counters)
  next
    case (Returns x)
    show ?thesis
    proof (cases "in_range le_min le_max mn x mx")
      case (Throws e)
      with g tw Returns show ?thesis
        by (simp add: expect_in_range_def counters_fail_increments
            expect_in_range_catch_counters)
    next
      case eqr: (Returns c)
      show ?thesis
      proof (cases c)
        case True
        with g tw Returns eqr show ?thesis
          by (simp add: expect_in_range_passes increments_simps)
      next
        case False
        with g tw Returns eqr assms(2,3) show ?thesis
          by (simp add: expect_in_range_fails increments_exactly_one_def)
      qed
    qed
  qed
qed

lemma expect_true_increments:
  assumes "filter_rejects s i = Returns b"
  shows "increments_exactly_one s (fst (snd (expect_true lnot i t s w)))"
proof (cases b)
  case True
  with assms show ?thesis by (simp add: expect_true_skips increments_simps)
next
  case False
  with assms have g: "filter_rejects s i = Returns False" by simp
  obtain r w' where "not_not lnot t w = (r, w')" by (cases "not_not lnot t w")
  from expect_true_run [OF g this] show ?thesis
    by (simp add: increments_simps split: outcome.splits)
qed

lemma expect_false_increments:
  assumes "filter_rejects s i = Returns b"
  shows "increments_exactly_one s (fst (snd (expect_false lnot i t s w)))"
proof (cases b)
  case True
  with assms show ?thesis by (simp add: expect_false_skips increments_simps)
next
  case False
  with assms have g: "filter_rejects s i = Returns False" by simp
  obtain r w' where "not_not lnot t w = (r, w')" by (cases "not_not lnot t w")
  from expect_false_run [OF g this] show ?thesis
    by (simp add: increments_simps split: outcome.splits)
qed

lemma expect_any_exception_increments:
  assumes "filter_rejects s i = Returns b"
  shows "increments_exactly_one s (fst (snd (expect_any_exception i t s w)))"
proof (cases b)
  case True
  with assms show ?thesis by (simp add: expect_any_exception_skips increments_simps)
next
  case False
  with assms have g: "filter_rejects s i = Returns False" by simp
  obtain r w' where "t w = (r, w')" by (cases "t w")
  from expect_any_exception_run [where t = t and w = w, OF g this] show ?thesis
    by (simp add: increments_simps split: outcome.splits)
qed

lemma expect_exception_increments:
  assumes "filter_rejects s i = Returns b"
  shows "increments_exactly_one s (fst (snd (expect_exception ex i t s w)))"
proof (cases b)
  case True
  with assms show ?thesis by (simp add: expect_exception_skips increments_simps)
next
  case False
  with assms have g: "filter_rejects s i = Returns False" by simp
  obtain r w' where "t w = (r, w')" by (cases "t w")
  from expect_exception_run [where t = t and w = w, OF g this] show ?thesis
    by (simp add: increments_simps split: outcome.splits)
qed

lemma run_assertion_increments:
  assumes "total_filter (filter' s)" and "quiet_assertion a"
  shows "increments_exactly_one s (fst (snd (run_assertion a s w)))"
proof (cases a)
  case (Expect_true lnot i t)
  from total_filter_returns [OF assms(1), of i] obtain b where "filter_rejects s i = Returns b" ..
  with Expect_true show ?thesis by (simp add: expect_true_increments)
next
  case (Expect_false lnot i t)
  from total_filter_returns [OF assms(1), of i] obtain b where "filter_rejects s i = Returns b" ..
  with Expect_false show ?thesis by (simp add: expect_false_increments)
next
  case (Expect_value eq pr pr' i v t)
  from total_filter_returns [OF assms(1), of i] obtain b where "filter_rejects s i = Returns b" ..
  with Expect_value assms(2) show ?thesis by (simp add: expect_value_increments)
next
  case (Expect_in_range le_min le_max pr pr' i mn mx t)
  from total_filter_returns [OF assms(1), of i] obtain b where "filter_rejects s i = Returns b" ..
  with Expect_in_range assms(2) show ?thesis by (simp add: expect_in_range_increments)
next
  case (Expect_any_exception i t)
  from total_filter_returns [OF assms(1), of i] obtain b where "filter_rejects s i = Returns b" ..
  with Expect_any_exception show ?thesis by (simp add: expect_any_exception_increments)
next
  case (Expect_exception ex i t)
  from total_filter_returns [OF assms(1), of i] obtain b where "filter_rejects s i = Returns b" ..
  with Expect_exception show ?thesis by (simp add: expect_exception_increments)
qed

text \<open>No assertion changes the filter.\<close>

lemma expect_value_catch_filter:
  "filter' (fst (snd (expect_value_catch pr i v e s w))) = filter' s"
  by (simp add: expect_value_catch_def fail'_eq Let_def split: prod.splits option.splits)

lemma expect_in_range_catch_filter:
  "filter' (fst (snd (expect_in_range_catch pr i mn mx e s w))) = filter' s"
  by (simp add: expect_in_range_catch_def fail'_eq Let_def split: prod.splits option.splits)

lemma expect_value_filter:
  "filter' (fst (snd (expect_value eq pr pr' i v t s w))) = filter' s"
  by (simp add: expect_value_def expect_value_catch_filter fail'_eq pass'_records
      records_pass_def skip_def Let_def
      split: outcome.splits prod.splits option.splits)

lemma expect_in_range_filter:
  "filter' (fst (snd (expect_in_range le_min le_max pr pr' i mn mx t s w))) = filter' s"
  by (simp add: expect_in_range_def expect_in_range_catch_filter fail'_eq pass'_records
      records_pass_def skip_def Let_def
      split: outcome.splits prod.splits option.splits)

lemma expect_true_filter:
  "filter' (fst (snd (expect_true lnot i t s w))) = filter' s"
  using expect_value_filter
    [of bool_eq bool_inserter bool_inserter i True "not_not lnot t"
      "s\<lparr>out' := stream (out' s) [put_boolalpha]\<rparr>" w]
  by (simp add: expect_true_def skip_def Let_def case_prod_beta split: outcome.splits)

lemma expect_false_filter:
  "filter' (fst (snd (expect_false lnot i t s w))) = filter' s"
  using expect_value_filter
    [of bool_eq bool_inserter bool_inserter i False "not_not lnot t"
      "s\<lparr>out' := stream (out' s) [put_boolalpha]\<rparr>" w]
  by (simp add: expect_false_def skip_def Let_def case_prod_beta split: outcome.splits)

lemma expect_any_exception_filter:
  "filter' (fst (snd (expect_any_exception i t s w))) = filter' s"
  by (simp add: expect_any_exception_def fail'_eq pass'_records records_pass_def skip_def
      Let_def split: outcome.splits prod.splits)

lemma expect_exception_filter:
  "filter' (fst (snd (expect_exception ex i t s w))) = filter' s"
  by (simp add: expect_exception_def fail'_eq pass'_records records_pass_def skip_def
      Let_def split: outcome.splits prod.splits)

lemma run_assertion_filter: "filter' (fst (snd (run_assertion a s w))) = filter' s"
  by (cases a)
    (simp_all add: expect_true_filter expect_false_filter expect_value_filter
      expect_in_range_filter expect_any_exception_filter expect_exception_filter)

text \<open>The format flags.\<close>

lemma fail'_flags [simp]: "flags (out' (fail' i s)) = flags (out' s)"
  by (simp add: fail'_eq)

lemma put_flags [simp]: "flags (put cs os) = flags os"
  by (simp add: put_def)

lemma try_stream_flags_all:
  "list_all (\<lambda>f. \<forall>os. flags (snd (f os)) = flags os) fs \<Longrightarrow>
   flags (snd (try_stream os fs)) = flags os"
  by (rule try_stream_flags) (simp add: list_all_iff)

lemma expect_value_catch_flags:
  assumes "keeps_flags pr v"
  shows "flags (out' (fst (snd (expect_value_catch pr i v e s w)))) = flags (out' s)"
  using assms
  by (cases e)
    (simp_all add: expect_value_catch_def Let_def case_prod_beta try_stream_flags_all
      split: option.splits)

lemma expect_in_range_catch_flags:
  assumes "keeps_flags pr mn" and "keeps_flags pr mx"
  shows "flags (out' (fst (snd (expect_in_range_catch pr i mn mx e s w)))) = flags (out' s)"
  using assms
  by (cases e)
    (simp_all add: expect_in_range_catch_def Let_def case_prod_beta try_stream_flags_all
      split: option.splits)

lemma expect_value_flags:
  assumes "\<And>x. keeps_flags pr x" and "\<And>x. keeps_flags pr' x"
  shows "flags (out' (fst (snd (expect_value eq pr pr' i v t s w)))) = flags (out' s)"
proof -
  show ?thesis
  proof (cases "filter_rejects s i")
    case (Throws e)
    then show ?thesis by (simp add: expect_value_guard_throws)
  next
    case (Returns b)
    show ?thesis
    proof (cases b)
      case True
      with Returns show ?thesis by (simp add: expect_value_skips skip_def)
    next
      case False
      with Returns have g: "filter_rejects s i = Returns False" by simp
      obtain r w' where tw: "t w = (r, w')" by (cases "t w")
      show ?thesis
      proof (cases r)
        case (Throws e)
        with g tw assms(1) show ?thesis
          by (simp add: expect_value_throws expect_value_catch_flags)
      next
        case rx: (Returns x)
        show ?thesis
        proof (cases "eq x v")
          case (Throws e)
          with g tw rx assms(1) show ?thesis
            by (simp add: expect_value_def expect_value_catch_flags)
        next
          case (Returns c)
          show ?thesis
          proof (cases c)
            case True
            with g tw rx Returns show ?thesis
              by (simp add: expect_value_passes records_pass_def)
          next
            case False
            let ?fs = "[plain (put ''  expected value ''), put_value pr v,
              plain (put '', found ''), put_value pr' x, plain (put '' instead.''),
              plain (put nl)]"
            have fl: "flags (snd (try_stream (out' (fail' i s)) ?fs)) = flags (out' s)"
              using assms by (simp add: try_stream_flags_all del: try_stream_plain)
            obtain r' os where ts: "try_stream (out' (fail' i s)) ?fs = (r', os)"
              by (cases "try_stream (out' (fail' i s)) ?fs")
            with fl have os: "flags os = flags (out' s)" by simp
            from g tw rx Returns False ts os assms(1) show ?thesis
              by (cases r') (simp_all add: expect_value_def Let_def expect_value_catch_flags)
          qed
        qed
      qed
    qed
  qed
qed

lemma expect_in_range_flags:
  assumes "\<And>x. keeps_flags pr x" and "\<And>x. keeps_flags pr' x"
  shows "flags (out' (fst (snd (expect_in_range le_min le_max pr pr' i mn mx t s w)))) =
    flags (out' s)"
proof -
  show ?thesis
  proof (cases "filter_rejects s i")
    case (Throws e)
    then show ?thesis by (simp add: expect_in_range_guard_throws)
  next
    case (Returns b)
    show ?thesis
    proof (cases b)
      case True
      with Returns show ?thesis by (simp add: expect_in_range_skips skip_def)
    next
      case False
      with Returns have g: "filter_rejects s i = Returns False" by simp
      obtain r w' where tw: "t w = (r, w')" by (cases "t w")
      show ?thesis
      proof (cases r)
        case (Throws e)
        with g tw assms(1) show ?thesis
          by (simp add: expect_in_range_throws expect_in_range_catch_flags)
      next
        case rx: (Returns x)
        show ?thesis
        proof (cases "in_range le_min le_max mn x mx")
          case (Throws e)
          with g tw rx assms(1) show ?thesis
            by (simp add: expect_in_range_def expect_in_range_catch_flags)
        next
          case (Returns c)
          show ?thesis
          proof (cases c)
            case True
            with g tw rx Returns show ?thesis
              by (simp add: expect_in_range_passes records_pass_def)
          next
            case False
            let ?fs = "[plain (put ''  value ''), put_value pr' x,
              plain (put '' is not in expected range [''), put_value pr mn,
              plain (put '', ''), put_value pr mx, plain (put '']''), plain (put nl)]"
            have fl: "flags (snd (try_stream (out' (fail' i s)) ?fs)) = flags (out' s)"
              using assms by (simp add: try_stream_flags_all del: try_stream_plain)
            obtain r' os where ts: "try_stream (out' (fail' i s)) ?fs = (r', os)"
              by (cases "try_stream (out' (fail' i s)) ?fs")
            with fl have os: "flags os = flags (out' s)" by simp
            from g tw rx Returns False ts os assms(1) show ?thesis
              by (cases r')
                (simp_all add: expect_in_range_def Let_def expect_in_range_catch_flags)
          qed
        qed
      qed
    qed
  qed
qed

lemma records_flags [simp]:
  "flags (out' (records_pass s i)) = flags (out' s)"
  "flags (out' (records_fail s i d)) = flags (out' s)"
  "flags (out' (skip s)) = flags (out' s)"
  by (simp_all add: records_pass_def records_fail_def skip_def)

lemma expect_true_flags:
  "flags (out' (fst (snd (expect_true lnot i t s w)))) = flags (out' s)"
proof (cases "filter_rejects s i")
  case (Throws e)
  then show ?thesis by (simp add: expect_true_guard_throws)
next
  case (Returns b)
  show ?thesis
  proof (cases b)
    case True
    with Returns show ?thesis by (simp add: expect_true_skips)
  next
    case False
    with Returns have g: "filter_rejects s i = Returns False" by simp
    obtain r w' where "not_not lnot t w = (r, w')" by (cases "not_not lnot t w")
    from expect_true_run [OF g this] show ?thesis by (simp split: outcome.splits)
  qed
qed

lemma expect_false_flags:
  "flags (out' (fst (snd (expect_false lnot i t s w)))) = flags (out' s)"
proof (cases "filter_rejects s i")
  case (Throws e)
  then show ?thesis by (simp add: expect_false_guard_throws)
next
  case (Returns b)
  show ?thesis
  proof (cases b)
    case True
    with Returns show ?thesis by (simp add: expect_false_skips)
  next
    case False
    with Returns have g: "filter_rejects s i = Returns False" by simp
    obtain r w' where "not_not lnot t w = (r, w')" by (cases "not_not lnot t w")
    from expect_false_run [OF g this] show ?thesis by (simp split: outcome.splits)
  qed
qed

lemma expect_any_exception_flags:
  "flags (out' (fst (snd (expect_any_exception i t s w)))) = flags (out' s)"
proof (cases "filter_rejects s i")
  case (Throws e)
  then show ?thesis by (simp add: expect_any_exception_guard_throws)
next
  case (Returns b)
  show ?thesis
  proof (cases b)
    case True
    with Returns show ?thesis by (simp add: expect_any_exception_skips)
  next
    case False
    with Returns have g: "filter_rejects s i = Returns False" by simp
    obtain r w' where "t w = (r, w')" by (cases "t w")
    from expect_any_exception_run [where t = t and w = w, OF g this] show ?thesis
      by (simp split: outcome.splits)
  qed
qed

lemma expect_exception_flags:
  "flags (out' (fst (snd (expect_exception ex i t s w)))) = flags (out' s)"
proof (cases "filter_rejects s i")
  case (Throws e)
  then show ?thesis by (simp add: expect_exception_guard_throws)
next
  case (Returns b)
  show ?thesis
  proof (cases b)
    case True
    with Returns show ?thesis by (simp add: expect_exception_skips)
  next
    case False
    with Returns have g: "filter_rejects s i = Returns False" by simp
    obtain r w' where "t w = (r, w')" by (cases "t w")
    from expect_exception_run [where t = t and w = w, OF g this] show ?thesis
      by (simp split: outcome.splits)
  qed
qed

section \<open>The counters along a sequence of calls\<close>

text \<open>
  The three cases of \<open>increments_exactly_one\<close> exclude one another: of the three
  counters, one has gone up by one and two are unchanged.
\<close>

lemma increments_exactly_one_count:
  assumes "increments_exactly_one s s'"
  shows "length (filter (\<lambda>c. c s' = c s + 1) [count_pass', count_fail', count_skip']) = 1"
    and "length (filter (\<lambda>c. c s' = c s) [count_pass', count_fail', count_skip']) = 2"
  using assms by (auto simp: increments_exactly_one_def)

lemma increments_word_sum:
  "increments_exactly_one s s' \<Longrightarrow>
   count_pass' s' + count_fail' s' + count_skip' s' =
   count_pass' s + count_fail' s + count_skip' s + 1"
  by (auto simp: increments_exactly_one_def)

lemma unat_inc: "unat (x :: 64 word) + 1 < 2 ^ 64 \<Longrightarrow> unat (x + 1) = unat x + 1"
  using unat_add_lem [of x 1] by simp

lemma increments_nat_sum:
  "increments_exactly_one s s' \<Longrightarrow> counters_sum s + 1 < 2 ^ 64 \<Longrightarrow>
   counters_sum s' = counters_sum s + 1"
  by (auto simp: increments_exactly_one_def counters_sum_def unat_inc)

lemma run_call_not_assertion:
  "\<not> is_assertion c \<Longrightarrow>
   count_pass' (fst (run_call c (s, w))) = count_pass' s \<and>
   count_fail' (fst (run_call c (s, w))) = count_fail' s \<and>
   count_skip' (fst (run_call c (s, w))) = count_skip' s"
  by (cases c)
    (simp_all add: color_output_set_def hide_pass_def show_pass_def only_if_def always_def
      summary_def Let_def)

lemma run_call_assertion:
  "is_assertion c \<Longrightarrow> total_filter (filter' s) \<Longrightarrow> quiet_call c \<Longrightarrow>
   increments_exactly_one s (fst (run_call c (s, w)))"
  by (cases c) (simp_all add: run_assertion_increments)

lemma run_call_total_filter:
  "total_filter (filter' s) \<Longrightarrow> quiet_call c \<Longrightarrow>
   total_filter (filter' (fst (run_call c (s, w))))"
  by (cases c)
    (simp_all add: run_assertion_filter color_output_set_def hide_pass_def show_pass_def
      only_if_def always_def summary_def Let_def total_filter_def)

lemma run_calls_word_sum:
  "total_filter (filter' s) \<Longrightarrow> (\<And>c. c \<in> set cs \<Longrightarrow> quiet_call c) \<Longrightarrow>
   count_pass' (fst (run_calls cs (s, w))) + count_fail' (fst (run_calls cs (s, w))) +
     count_skip' (fst (run_calls cs (s, w))) =
   count_pass' s + count_fail' s + count_skip' s + of_nat (assertion_calls cs)"
proof (induction cs arbitrary: s w)
  case Nil
  then show ?case by (simp add: run_calls_def assertion_calls_def)
next
  case (Cons c cs)
  obtain s1 w1 where step: "run_call c (s, w) = (s1, w1)" by (cases "run_call c (s, w)")
  have rest: "run_calls (c # cs) (s, w) = run_calls cs (s1, w1)"
    by (simp add: run_calls_def step)
  have qc: "quiet_call c" using Cons.prems(2) by simp
  from run_call_total_filter [OF Cons.prems(1) qc, of w] step
  have tf: "total_filter (filter' s1)" by simp
  have ih: "count_pass' (fst (run_calls cs (s1, w1))) + count_fail' (fst (run_calls cs (s1, w1))) +
     count_skip' (fst (run_calls cs (s1, w1))) =
     count_pass' s1 + count_fail' s1 + count_skip' s1 + of_nat (assertion_calls cs)"
    using Cons.IH [OF tf] Cons.prems(2) by simp
  show ?case
  proof (cases "is_assertion c")
    case True
    with run_call_assertion [OF _ Cons.prems(1) qc, of w] step
    have "increments_exactly_one s s1" by simp
    from increments_word_sum [OF this] ih True show ?thesis
      by (simp add: rest assertion_calls_def)
  next
    case False
    with run_call_not_assertion [of c s w] step ih show ?thesis
      by (simp add: rest assertion_calls_def)
  qed
qed

lemma run_calls_nat_sum:
  "total_filter (filter' s) \<Longrightarrow> (\<And>c. c \<in> set cs \<Longrightarrow> quiet_call c) \<Longrightarrow>
   counters_sum s + assertion_calls cs < 2 ^ 64 \<Longrightarrow>
   counters_sum (fst (run_calls cs (s, w))) = counters_sum s + assertion_calls cs"
proof (induction cs arbitrary: s w)
  case Nil
  then show ?case by (simp add: run_calls_def assertion_calls_def)
next
  case (Cons c cs)
  obtain s1 w1 where step: "run_call c (s, w) = (s1, w1)" by (cases "run_call c (s, w)")
  have rest: "run_calls (c # cs) (s, w) = run_calls cs (s1, w1)"
    by (simp add: run_calls_def step)
  have qc: "quiet_call c" using Cons.prems(2) by simp
  from run_call_total_filter [OF Cons.prems(1) qc, of w] step
  have tf: "total_filter (filter' s1)" by simp
  have ih: "counters_sum s1 + assertion_calls cs < 2 ^ 64 \<Longrightarrow>
     counters_sum (fst (run_calls cs (s1, w1))) = counters_sum s1 + assertion_calls cs"
    using Cons.IH [OF tf] Cons.prems(2) by simp
  show ?case
  proof (cases "is_assertion c")
    case True
    with run_call_assertion [OF _ Cons.prems(1) qc, of w] step
    have inc: "increments_exactly_one s s1" by simp
    from True Cons.prems(3) have bound: "counters_sum s + 1 + assertion_calls cs < 2 ^ 64"
      by (simp add: assertion_calls_def)
    then have "counters_sum s + 1 < 2 ^ 64" by simp
    from increments_nat_sum [OF inc this] have s1: "counters_sum s1 = counters_sum s + 1" .
    with bound ih True show ?thesis
      by (simp add: rest assertion_calls_def)
  next
    case False
    with run_call_not_assertion [of c s w] step have "counters_sum s1 = counters_sum s"
      by (simp add: counters_sum_def)
    with False Cons.prems(3) ih show ?thesis
      by (simp add: rest assertion_calls_def)
  qed
qed

section \<open>The text of the summary\<close>

lemma summary_eq:
  "summary s = s\<lparr>out' := appended (summary_text s) (out' s)\<rparr>"
  by (simp add: summary_def summary_text_def skipped_line_def passed_line_def failed_line_def
      red'_def reset'_def c_red_def c_reset_def nl_def appended_def io_defs Let_def)

lemma sublist_FAILED: "sublist ''FAILED'' (failed_line s)"
proof -
  have "failed_line s =
      (num_put (out' s) (flags (out' s)) (count_fail' s) @ '' tests '' @
       (if color_output' s then CHR 0x1B # ''[31m'' else [])) @ ''FAILED'' @
      ('' !'' @ (if color_output' s then CHR 0x1B # ''[0m'' else []) @ [CHR 0x0A])"
    by (simp add: failed_line_def)
  then show ?thesis unfolding sublist_def by blast
qed

lemma sublist_needs_char: "sublist (c # cs) ys \<Longrightarrow> c \<in> set ys"
  by (auto simp: sublist_def)

lemma last_line [simp]:
  "last (skipped_line s) = CHR 0x0A" "last (passed_line s) = CHR 0x0A"
  "last (failed_line s) = CHR 0x0A"
  by (simp_all add: skipped_line_def passed_line_def failed_line_def)

section \<open>Facts about the concrete inputs\<close>

lemma nat_inserter_never_throws [simp]: "never_throws nat_inserter n"
  by (simp add: never_throws_def nat_inserter_def plain_def)

lemma nat_inserter_keeps_flags [simp]: "keeps_flags nat_inserter n"
  by (simp add: keeps_flags_def nat_inserter_def plain_def)

lemma nat_inserter_eq [simp]: "snd (nat_inserter n os) = appended (show_base 10 n) os"
  by (simp add: nat_inserter_def plain_def put_appended)

lemma UnitTester_fields [simp]:
  "out' (UnitTester os) = os" "count_pass' (UnitTester os) = 0"
  "count_fail' (UnitTester os) = 0" "count_skip' (UnitTester os) = 0"
  "color_output' (UnitTester os) = True" "hide_pass' (UnitTester os) = False"
  "filter' (UnitTester os) = None"
  by (simp_all add: UnitTester_def)

lemma filter_rejects_only_if [simp]:
  "filter_rejects (only_if (Some f) s) i =
     (case f i of Returns b \<Rightarrow> Returns (\<not> b) | Throws e \<Rightarrow> Throws e)"
  by (simp add: filter_rejects_def only_if_def)

lemma fresh_session_guard [simp]: "filter_rejects (UnitTester os) i = Returns False"
  by (simp add: filter_rejects_def UnitTester_def)

lemma show_base_examples [simp]:
  "show_base 10 0 = ''0''" "show_base 10 2 = ''2''" "show_base 10 3 = ''3''"
  "show_base 10 5 = ''5''" "show_base 10 7 = ''7''" "show_base 10 10 = ''10''"
  "show_base 10 11 = ''11''" "show_base 10 12 = ''12''" "show_base 16 12 = ''c''"
  "show_base 16 2 = ''2''" "show_base 16 3 = ''3''"
  by (simp_all add: show_base.simps digit_char_def)

lemma digit_char_digits:
  "d < 16 \<Longrightarrow> digit_char d \<in> set ''0123456789abcdef''"
  unfolding digit_char_def by (intro nth_mem) simp

lemma show_base_digits:
  "2 \<le> b \<Longrightarrow> b \<le> 16 \<Longrightarrow> set (show_base b n) \<subseteq> set ''0123456789abcdef''"
proof (induction b n rule: show_base.induct)
  case (1 b n)
  show ?case
  proof (cases "n < b")
    case True
    with "1.prems" have "n < 16" by simp
    from digit_char_digits [OF this] True show ?thesis
      by (subst show_base.simps) simp
  next
    case False
    from "1.prems" have "n mod b < 16"
      by (meson le_trans less_le_trans mod_less_divisor not_less zero_less_numeral
          less_le_trans [of 0 2 b])
    from digit_char_digits [OF this] "1.IH" "1.prems" False show ?thesis
      by (subst show_base.simps) simp
  qed
qed

lemma base_put_no_L: "CHR ''L'' \<notin> set (base_put f c)"
proof -
  have h: "set (show_base 16 n) \<subseteq> set ''0123456789abcdef''" for n
    by (rule show_base_digits) simp_all
  have d: "set (show_base 10 n) \<subseteq> set ''0123456789abcdef''" for n
    by (rule show_base_digits) simp_all
  have "set (base_put f c) \<subseteq> set ''0123456789abcdef''"
    unfolding base_put_def using h d by (cases "other_flags f = 1") presburger+
  then show ?thesis by auto
qed

text \<open>A catch handler never returns true and never counts a PASS.\<close>

lemma expect_value_catch_not_true:
  "fst (expect_value_catch pr i v e s w) \<noteq> Returns True"
  by (simp add: expect_value_catch_def Let_def split: prod.splits option.splits)

lemma expect_in_range_catch_not_true:
  "fst (expect_in_range_catch pr i mn mx e s w) \<noteq> Returns True"
  by (simp add: expect_in_range_catch_def Let_def split: prod.splits option.splits)

lemma expect_value_not_passes:
  assumes "filter_rejects s i = Returns False" and "t w = (Returns x, w')"
    and "eq x v \<noteq> Returns True"
  shows "fst (expect_value eq pr pr' i v t s w) \<noteq> Returns True"
    and "count_pass' (fst (snd (expect_value eq pr pr' i v t s w))) = count_pass' s"
proof -
  have c: "count_pass' (fst (snd (expect_value_catch pr i v e s0 w0))) = count_pass' s0"
    for e s0 w0
    using expect_value_catch_counters [of pr i v e s0 w0] by (simp add: counters_def)
  show "fst (expect_value eq pr pr' i v t s w) \<noteq> Returns True"
    using assms
    by (cases "eq x v")
      (auto simp: expect_value_def Let_def expect_value_catch_not_true
        split: prod.splits option.splits)
  show "count_pass' (fst (snd (expect_value eq pr pr' i v t s w))) = count_pass' s"
    using assms
    by (cases "eq x v")
      (auto simp: expect_value_def Let_def c fail'_eq split: prod.splits option.splits)
qed

lemma expect_in_range_not_passes:
  assumes "filter_rejects s i = Returns False" and "t w = (Returns x, w')"
    and "in_range le_min le_max mn x mx \<noteq> Returns True"
  shows "fst (expect_in_range le_min le_max pr pr' i mn mx t s w) \<noteq> Returns True"
    and "count_pass' (fst (snd (expect_in_range le_min le_max pr pr' i mn mx t s w))) =
      count_pass' s"
proof -
  have c: "count_pass' (fst (snd (expect_in_range_catch pr i mn mx e s0 w0))) = count_pass' s0"
    for e s0 w0
    using expect_in_range_catch_counters [of pr i mn mx e s0 w0] by (simp add: counters_def)
  show "fst (expect_in_range le_min le_max pr pr' i mn mx t s w) \<noteq> Returns True"
    using assms
    by (cases "in_range le_min le_max mn x mx")
      (auto simp: expect_in_range_def Let_def expect_in_range_catch_not_true
        split: prod.splits option.splits)
  show "count_pass' (fst (snd (expect_in_range le_min le_max pr pr' i mn mx t s w))) =
      count_pass' s"
    using assms
    by (cases "in_range le_min le_max mn x mx")
      (auto simp: expect_in_range_def Let_def c fail'_eq split: prod.splits option.splits)
qed

lemma in_range_True:
  "in_range le_min le_max mn x mx = Returns True \<longleftrightarrow>
   le_min mn x = Returns True \<and> le_max x mx = Returns True"
  by (auto simp: in_range_def split: outcome.splits)

text \<open>A run of calls that all pass counts them in \<open>count_pass_\<close>, which wraps.\<close>

lemma passing_calls:
  fixes c :: "('a, 'b, 'w) call"
  assumes "c = Assertion (Expect_any_exception i t)" and "\<And>w. fst (t w) = Throws e"
  shows "filter' s = None \<Longrightarrow>
     counters (fst (run_calls (replicate n c) (s, w))) =
       (count_pass' s + of_nat n, count_fail' s, count_skip' s)"
proof (induction n arbitrary: s w)
  case 0
  then show ?case by (simp add: run_calls_def counters_def)
next
  case (Suc n)
  from Suc.prems have g: "filter_rejects s i = Returns False"
    by (simp add: filter_rejects_def)
  obtain w' where tw: "t w = (Throws e, w')" using assms(2) [of w] by (cases "t w") simp
  from expect_any_exception_run [where t = t and w = w, OF g tw]
  have step: "run_call c (s, w) = (records_pass s i, w')"
    by (simp add: assms(1))
  have f: "filter' (records_pass s i) = None"
    using Suc.prems by (simp add: records_pass_def)
  have "run_calls (replicate (Suc n) c) (s, w) = run_calls (replicate n c) (records_pass s i, w')"
    by (simp add: run_calls_def step)
  with Suc.IH [OF f, of w'] show ?case
    by (simp add: records_pass_def)
qed

lemma assertion_calls_replicate:
  "is_assertion c \<Longrightarrow> assertion_calls (replicate n c) = n"
  by (induction n) (simp_all add: assertion_calls_def)

section \<open>The claims\<close>

text \<open>
  C1, as stated, fails. An assertion call whose filter throws is left before any
  counter is touched: none of the three counters changes. A call of \<^verbatim>\<open>expect_value\<close>
  whose result differs from the expected value and whose \<^verbatim>\<open>operator<<\<close> throws while
  the diagnostic is printed runs \<^verbatim>\<open>fail_\<close> twice, once in the \<^verbatim>\<open>try\<close> block and once
  in the handler: \<open>fail_count\<close> goes up by two. And the counters are \<^verbatim>\<open>uintmax_t\<close>:
  after \<open>2\<^sup>6\<^sup>4\<close> passing calls their sum is 0.
\<close>

theorem counters_miss_assertion_calls:
  "counters (fst (snd (run_assertion
      (Expect_any_exception ''t'' (returning_test 1) :: (nat, nat, nat) assertion)
      (only_if (Some throwing_filter) (UnitTester fresh_stream)) 0))) = (0, 0, 0) \<and>
   \<not> increments_exactly_one (only_if (Some throwing_filter) (UnitTester fresh_stream))
     (fst (snd (run_assertion
       (Expect_any_exception ''t'' (returning_test 1) :: (nat, nat, nat) assertion)
       (only_if (Some throwing_filter) (UnitTester fresh_stream)) 0))) \<and>
   counters (fst (snd (run_assertion
      (Expect_value nat_eq nat_inserter throwing_inserter ''t'' 3 (returning_test 2))
      (UnitTester fresh_stream) 0))) = (0, 2, 0) \<and>
   \<not> increments_exactly_one (UnitTester fresh_stream)
     (fst (snd (run_assertion
       (Expect_value nat_eq nat_inserter throwing_inserter ''t'' 3 (returning_test 2))
       (UnitTester fresh_stream) 0))) \<and>
   assertion_calls (replicate (2 ^ 64)
     (Assertion (Expect_any_exception ''t'' (throwing_test (Non_standard ''int'')))
       :: (nat, nat, nat) call)) = 2 ^ 64 \<and>
   counters_sum (fst (run_calls (replicate (2 ^ 64)
     (Assertion (Expect_any_exception ''t'' (throwing_test (Non_standard ''int'')))
       :: (nat, nat, nat) call)) (UnitTester fresh_stream, 0))) = 0"
proof -
  let ?s = "only_if (Some throwing_filter) (UnitTester fresh_stream)"
  have g: "filter_rejects ?s ''t'' = Throws (Non_standard ''int'')"
    by (simp add: throwing_filter_def)
  have a: "fst (snd (run_assertion
      (Expect_any_exception ''t'' (returning_test 1) :: (nat, nat, nat) assertion) ?s 0)) = ?s"
    by (simp add: expect_any_exception_guard_throws [OF g])
  have b: "counters (fst (snd (run_assertion
      (Expect_value nat_eq nat_inserter throwing_inserter ''t'' 3 (returning_test 2))
      (UnitTester fresh_stream) 0))) = (0, 2, 0)"
    by (simp add: expect_value_def expect_value_catch_def returning_test_def nat_eq_def
        fail'_eq try_stream_value_throws throwing_inserter_def counters_def Let_def)
  let ?c = "Assertion (Expect_any_exception ''t'' (throwing_test (Non_standard ''int'')))
    :: (nat, nat, nat) call"
  have n: "assertion_calls (replicate (2 ^ 64) ?c) = 2 ^ 64"
    by (simp add: assertion_calls_replicate)
  have "counters (fst (run_calls (replicate (2 ^ 64) ?c) (UnitTester fresh_stream, 0))) =
      (count_pass' (UnitTester fresh_stream) + of_nat (2 ^ 64),
       count_fail' (UnitTester fresh_stream), count_skip' (UnitTester fresh_stream))"
    by (rule passing_calls
        [where i = "''t''" and t = "throwing_test (Non_standard ''int'')"
          and e = "Non_standard ''int''", OF refl])
      (simp_all add: throwing_test_def)
  then have w: "counters_sum (fst (run_calls (replicate (2 ^ 64) ?c)
      (UnitTester fresh_stream, 0))) = 0"
    by (simp add: counters_def counters_sum_def UnitTester_def)
  from a b n w show ?thesis
    by (simp add: counters_def increments_exactly_one_def only_if_def UnitTester_def)
qed

text \<open>
  C1, amended. An assertion call whose filter returns a verdict and whose
  \<^verbatim>\<open>operator<<\<close> of the printed values does not throw increments exactly one of
  \<open>pass_count\<close>, \<open>fail_count\<close> and \<open>skip_count\<close>, by one, and leaves the other two
  alone. After any sequence of such calls on a new session (interleaved or not with
  configuration calls and summaries), the sum of the three counters equals the number
  of assertion calls made: in the counters' own arithmetic (\<^verbatim>\<open>uintmax_t\<close>) for every
  such sequence, and as natural numbers for every such sequence with fewer than
  \<open>2\<^sup>6\<^sup>4\<close> assertion calls.
\<close>

theorem counters_count_assertion_calls:
  fixes a :: "('a, 'b, 'w) assertion" and cs :: "('c, 'd, 'v) call list"
  shows "(total_filter (filter' s) \<and> quiet_assertion a \<longrightarrow>
      increments_exactly_one s (fst (snd (run_assertion a s w)))) \<and>
   ((\<forall>c \<in> set cs. quiet_call c) \<longrightarrow>
      (let s' = fst (run_calls cs (UnitTester os, v))
       in count_pass' s' + count_fail' s' + count_skip' s' = of_nat (assertion_calls cs) \<and>
          (assertion_calls cs < 2 ^ 64 \<longrightarrow> counters_sum s' = assertion_calls cs)))"
proof -
  have nat0: "counters_sum (UnitTester os) = 0"
    by (simp add: counters_sum_def UnitTester_def)
  have word0:
    "count_pass' (UnitTester os) + count_fail' (UnitTester os) + count_skip' (UnitTester os) = 0"
    by (simp add: UnitTester_def)
  have tf: "total_filter (filter' (UnitTester os))"
    by (simp add: total_filter_def UnitTester_def)
  show ?thesis
    using run_assertion_increments [of s a w] run_calls_word_sum [OF tf, of cs v]
      run_calls_nat_sum [OF tf, of cs v] nat0 word0
    by (simp add: Let_def)
qed

theorem counters_count_assertion_calls_witness:
  "total_filter (filter' (only_if (Some (only_named ''a'')) (UnitTester fresh_stream))) \<and>
   quiet_assertion (Expect_value nat_eq nat_inserter nat_inserter ''b'' 3 (returning_test 2)) \<and>
   list_all quiet_call example_calls \<and>
   assertion_calls example_calls < 2 ^ 64 \<and>
   assertion_calls example_calls = 4 \<and>
   counters_sum (fst (run_calls example_calls (UnitTester fresh_stream, 0))) = 4 \<and>
   counters (fst (run_calls example_calls (UnitTester fresh_stream, 0))) = (2, 1, 1) \<and>
   increments_exactly_one (only_if (Some (only_named ''a'')) (UnitTester fresh_stream))
     (fst (snd (run_assertion
       (Expect_value nat_eq nat_inserter nat_inserter ''b'' 3 (returning_test 2))
       (only_if (Some (only_named ''a'')) (UnitTester fresh_stream)) 0)))"
proof -
  let ?s = "only_if (Some (only_named ''a'')) (UnitTester fresh_stream)"
  let ?a = "Expect_value nat_eq nat_inserter nat_inserter ''b'' 3 (returning_test 2)"
  have tf: "total_filter (filter' ?s)"
    by (simp add: total_filter_def only_if_def only_named_def)
  have qa: "quiet_assertion ?a" by auto
  have q: "\<forall>c \<in> set example_calls. quiet_call c"
    by (auto simp: example_calls_def total_filter_def only_named_def)
  have n: "assertion_calls example_calls = 4"
    by (simp add: assertion_calls_def example_calls_def)
  then have b: "assertion_calls example_calls < 2 ^ 64" by simp
  note inst = counters_count_assertion_calls [of ?s ?a 0 example_calls fresh_stream 0]
  from inst tf qa have i: "increments_exactly_one ?s (fst (snd (run_assertion ?a ?s 0)))"
    by blast
  from inst q b n
  have s: "counters_sum (fst (run_calls example_calls (UnitTester fresh_stream, 0))) = 4"
    by (simp add: Let_def)
  have c: "counters (fst (run_calls example_calls (UnitTester fresh_stream, 0))) = (2, 1, 1)"
    by (simp add: example_calls_def run_calls_def counters_def UnitTester_def
        expect_value_def expect_true_def expect_any_exception_def expect_in_range_def
        expect_value_catch_def in_range_def nat_eq_def nat_le_def bool_eq_def
        filter_rejects_def skip_def pass'_def fail'_def hide_pass_def only_if_def summary_def
        returning_test_def not_not_def is_zero_def only_named_def Let_def)
  from q have "list_all quiet_call example_calls" by (simp add: list_all_iff)
  with tf qa n b s c i show ?thesis by simp
qed

text \<open>
  C2, as stated, fails. When the unit under test throws, the handler of
  \<^verbatim>\<open>expect_value\<close> counts the FAIL, writes the FAIL line and then prints the expected
  value; that \<^verbatim>\<open>out_ << value\<close> stands in the handler, outside any \<^verbatim>\<open>try\<close>. If the
  value's \<^verbatim>\<open>operator<<\<close> throws there, its exception leaves the assertion: the call
  does not return false.
\<close>

theorem handler_lets_printing_fault_out:
  "filter_rejects (UnitTester fresh_stream) ''t'' = Returns False \<and>
   throwing_test (Std_exception ''std::runtime_error'' ''boom'') 0 =
     (Throws (Std_exception ''std::runtime_error'' ''boom''), 1) \<and>
   fst (expect_value nat_eq throwing_inserter nat_inserter ''t'' 3
     (throwing_test (Std_exception ''std::runtime_error'' ''boom''))
     (UnitTester fresh_stream) 0) =
   Throws (Std_exception ''std::ios_base::failure'' ''no output'') \<and>
   fst (expect_value nat_eq throwing_inserter nat_inserter ''t'' 3
     (throwing_test (Std_exception ''std::runtime_error'' ''boom''))
     (UnitTester fresh_stream) 0) \<noteq> Returns False"
  by (simp add: expect_value_def expect_value_catch_def throwing_test_def fail'_eq
      try_stream_value_throws throwing_inserter_def Let_def)

text \<open>
  C2, amended. For an identifier that the filter does not reject and a unit under test
  that throws, whether the thrown object derives from \<^verbatim>\<open>std::exception\<close> or not,
  \<^verbatim>\<open>expect_value\<close> and \<^verbatim>\<open>expect_in_range\<close> catch the fault and increment
  \<open>fail_count\<close> by one, leaving the other counters alone. If \<^verbatim>\<open>operator<<\<close> of the
  expected value (of the two bounds) does not throw, they return false, and what they
  write is the FAIL line, then the diagnostic: its fixed words, the printed value
  (bounds), the \<^verbatim>\<open>what()\<close> message or, for other objects, a fixed text, and a
  newline; nothing else in the session changes.
\<close>

theorem value_and_range_catch_faults:
  fixes t :: "('b, 'w) test" and t' :: "('d, 'w) test"
  assumes "filter_rejects s i = Returns False"
  shows "(t w = (Throws e, w') \<longrightarrow>
      counters (fst (snd (expect_value eq pr pr' i v t s w))) =
        (count_pass' s, count_fail' s + 1, count_skip' s)) \<and>
    (t w = (Throws e, w') \<and> never_throws pr v \<longrightarrow>
      expect_value eq pr pr' i v t s w =
        (Returns False,
         s\<lparr>count_fail' := count_fail' s + 1,
           out' := appended ('', '' @ exception_text e @ [CHR 0x0A])
                     (snd (pr v (appended (fail_line s i @ ''  expected value '') (out' s))))\<rparr>,
         w')) \<and>
    (t' w = (Throws e, w') \<longrightarrow>
      counters (fst (snd (expect_in_range le_min le_max pr2 pr2' i mn mx t' s w))) =
        (count_pass' s, count_fail' s + 1, count_skip' s)) \<and>
    (t' w = (Throws e, w') \<and> never_throws pr2 mn \<and> never_throws pr2 mx \<longrightarrow>
      expect_in_range le_min le_max pr2 pr2' i mn mx t' s w =
        (Returns False,
         s\<lparr>count_fail' := count_fail' s + 1,
           out' := appended (''], '' @ exception_text e @ [CHR 0x0A])
                     (snd (pr2 mx (appended '', ''
                       (snd (pr2 mn
                         (appended (fail_line s i @ ''  expected a value in ['')
                           (out' s)))))))\<rparr>,
         w'))"
  using assms
  by (simp add: expect_value_throws expect_in_range_throws expect_value_catch_counters
      expect_in_range_catch_counters expect_value_catch_eq expect_in_range_catch_eq)

theorem value_and_range_catch_faults_witness:
  "filter_rejects (UnitTester fresh_stream) ''t1'' = Returns False \<and>
   throwing_test (Std_exception ''std::runtime_error'' ''boom'') 0 =
     (Throws (Std_exception ''std::runtime_error'' ''boom''), 1) \<and>
   never_throws nat_inserter 3 \<and> never_throws nat_inserter 5 \<and>
   expect_value nat_eq nat_inserter nat_inserter ''t1'' 3
     (throwing_test (Std_exception ''std::runtime_error'' ''boom'')) (UnitTester fresh_stream) 0 =
   (Returns False,
    (UnitTester fresh_stream)\<lparr>count_fail' := 1,
      out' := fresh_stream\<lparr>written :=
        CHR 0x1B # ''[31m'' @ [CHR 0xE2, CHR 0x98, CHR 0x92] @ ''  FAIL  '' @
        CHR 0x1B # ''[0m'' @ ''t1'' @ [CHR 0x0A] @
        ''  expected value 3, got exception: boom'' @ [CHR 0x0A]\<rparr>\<rparr>, 1) \<and>
   expect_in_range nat_le nat_le nat_inserter nat_inserter ''t1'' 3 5
     (throwing_test (Non_standard ''int'')) (UnitTester fresh_stream) 0 =
   (Returns False,
    (UnitTester fresh_stream)\<lparr>count_fail' := 1,
      out' := fresh_stream\<lparr>written :=
        CHR 0x1B # ''[31m'' @ [CHR 0xE2, CHR 0x98, CHR 0x92] @ ''  FAIL  '' @
        CHR 0x1B # ''[0m'' @ ''t1'' @ [CHR 0x0A] @
        ''  expected a value in [3, 5], got exception not derived from std::exception'' @
        [CHR 0x0A]\<rparr>\<rparr>,
    1)"
proof -
  let ?s = "UnitTester fresh_stream"
  have h: "filter_rejects ?s ''t1'' = Returns False" by simp
  have a: "throwing_test (Std_exception ''std::runtime_error'' ''boom'') 0 =
      (Throws (Std_exception ''std::runtime_error'' ''boom''), 1)"
    and b: "throwing_test (Non_standard ''int'') 0 = (Throws (Non_standard ''int''), 1)"
    by (simp_all add: throwing_test_def)
  have n: "never_throws nat_inserter 3" "never_throws nat_inserter 5" by simp_all
  have 1: "expect_value nat_eq nat_inserter nat_inserter ''t1'' 3
      (throwing_test (Std_exception ''std::runtime_error'' ''boom'')) ?s 0 =
      (Returns False,
       ?s\<lparr>count_fail' := count_fail' ?s + 1,
         out' := appended ('', '' @ exception_text (Std_exception ''std::runtime_error'' ''boom'')
                   @ [CHR 0x0A])
                   (snd (nat_inserter 3
                     (appended (fail_line ?s ''t1'' @ ''  expected value '') (out' ?s))))\<rparr>, 1)"
    by (rule value_and_range_catch_faults
        [where t = "throwing_test (Std_exception ''std::runtime_error'' ''boom'')" and w = 0
          and pr = nat_inserter and v = 3,
          OF h, THEN conjunct2, THEN conjunct1, THEN mp, OF conjI [OF a n(1)]])
  have 2: "expect_in_range nat_le nat_le nat_inserter nat_inserter ''t1'' 3 5
      (throwing_test (Non_standard ''int'')) ?s 0 =
      (Returns False,
       ?s\<lparr>count_fail' := count_fail' ?s + 1,
         out' := appended (''], '' @ exception_text (Non_standard ''int'') @ [CHR 0x0A])
                   (snd (nat_inserter 5 (appended '', ''
                     (snd (nat_inserter 3
                       (appended (fail_line ?s ''t1'' @ ''  expected a value in ['')
                         (out' ?s)))))))\<rparr>, 1)"
    by (rule value_and_range_catch_faults
        [where t' = "throwing_test (Non_standard ''int'')" and w = 0
          and ?pr2.0 = nat_inserter and mn = 3 and mx = 5,
          OF h, THEN conjunct2, THEN conjunct2, THEN conjunct2, THEN mp,
          OF conjI [OF b conjI [OF n(1) n(2)]]])
  show ?thesis
    unfolding 1 2 using h a n
    by (simp add: fail_line_def exception_text_def appended_def fresh_stream_def)
qed

text \<open>
  C3. When a filter is set and returns false for the identifier, each of the six
  assertions returns \<open>false\<close>; \<open>skip_count\<close> is one more and nothing else in the session
  has changed, so \<open>pass_count\<close>, \<open>fail_count\<close> and the output stream are as before; and
  the world is the one before the call whatever the unit under test would do to it: the
  unit was not invoked.
\<close>

theorem rejected_test_is_skipped:
  fixes t1 :: "('a, 'w) test" and t2 :: "('b, 'w) test" and t3 :: "('c, 'w) test"
    and t4 :: "('d, 'w) test" and t5 :: "('e, 'w) test" and t6 :: "('f, 'w) test"
  assumes "filter' s = Some f" and "f i = Returns False"
  shows "expect_true lnot1 i t1 s w =
      (Returns False, s\<lparr>count_skip' := count_skip' s + 1\<rparr>, w) \<and>
    expect_false lnot2 i t2 s w =
      (Returns False, s\<lparr>count_skip' := count_skip' s + 1\<rparr>, w) \<and>
    expect_value eq3 pr3 pr3' i v t3 s w =
      (Returns False, s\<lparr>count_skip' := count_skip' s + 1\<rparr>, w) \<and>
    expect_in_range le4 le4' pr4 pr4' i mn mx t4 s w =
      (Returns False, s\<lparr>count_skip' := count_skip' s + 1\<rparr>, w) \<and>
    expect_any_exception i t5 s w =
      (Returns False, s\<lparr>count_skip' := count_skip' s + 1\<rparr>, w) \<and>
    expect_exception ex i t6 s w =
      (Returns False, s\<lparr>count_skip' := count_skip' s + 1\<rparr>, w)"
proof -
  from assms have "filter_rejects s i = Returns True" by (simp add: filter_rejects_def)
  then show ?thesis
    by (simp add: expect_true_skips expect_false_skips expect_value_skips expect_in_range_skips
        expect_any_exception_skips expect_exception_skips skip_def)
qed

theorem rejected_test_is_skipped_witness:
  "filter' (only_if (Some (only_named ''a'')) (UnitTester fresh_stream)) = Some (only_named ''a'') \<and>
   only_named ''a'' ''b'' = Returns False \<and>
   fst (expect_value nat_eq nat_inserter nat_inserter ''b'' 1 (returning_test 1)
     (only_if (Some (only_named ''a'')) (UnitTester fresh_stream)) 0) = Returns False \<and>
   counters (fst (snd (expect_value nat_eq nat_inserter nat_inserter ''b'' 1 (returning_test 1)
     (only_if (Some (only_named ''a'')) (UnitTester fresh_stream)) 0))) = (0, 0, 1) \<and>
   out' (fst (snd (expect_value nat_eq nat_inserter nat_inserter ''b'' 1 (returning_test 1)
     (only_if (Some (only_named ''a'')) (UnitTester fresh_stream)) 0))) = fresh_stream \<and>
   snd (snd (expect_value nat_eq nat_inserter nat_inserter ''b'' 1 (returning_test 1)
     (only_if (Some (only_named ''a'')) (UnitTester fresh_stream)) 0)) = 0 \<and>
   snd (returning_test 1 0) = 1"
proof -
  let ?s = "only_if (Some (only_named ''a'')) (UnitTester fresh_stream)"
  have f: "filter' ?s = Some (only_named ''a'')" by (simp add: only_if_def)
  have r: "only_named ''a'' ''b'' = Returns False" by (simp add: only_named_def)
  have "expect_value nat_eq nat_inserter nat_inserter ''b'' 1 (returning_test 1) ?s 0 =
      (Returns False, ?s\<lparr>count_skip' := count_skip' ?s + 1\<rparr>, 0)"
    by (rule rejected_test_is_skipped [OF f r, THEN conjunct2, THEN conjunct2, THEN conjunct1])
  with f r show ?thesis
    by (simp add: counters_def only_if_def returning_test_def)
qed

text \<open>
  C4, as stated, fails. \<^verbatim>\<open>expect_value\<close> compares with \<^verbatim>\<open>operator==\<close> of the two
  types, which need not hold between a value and itself (a NaN): then a unit under test
  that returns the expected value is counted as FAIL. And when the values differ and
  \<^verbatim>\<open>operator<<\<close> of the returned value throws, the diagnostic breaks off before the
  actual value, the handler counts the FAIL a second time and reports the exception of
  the printing instead.
\<close>

theorem expect_value_equal_values_fail:
  "filter_rejects (UnitTester fresh_stream) ''t'' = Returns False \<and>
   returning_test 0 0 = (Returns 0, 1) \<and>
   expect_value nan_eq nat_inserter nat_inserter ''t'' 0 (returning_test 0)
     (UnitTester fresh_stream) 0 =
     (Returns False,
      (UnitTester fresh_stream)\<lparr>count_fail' := 1,
        out' := fresh_stream\<lparr>written :=
          CHR 0x1B # ''[31m'' @ [CHR 0xE2, CHR 0x98, CHR 0x92] @ ''  FAIL  '' @
          CHR 0x1B # ''[0m'' @ ''t'' @ [CHR 0x0A] @
          ''  expected value 0, found 0 instead.'' @ [CHR 0x0A]\<rparr>\<rparr>,
      1) \<and>
   returning_test 2 0 = (Returns 2, 1) \<and>
   expect_value nat_eq nat_inserter throwing_inserter ''t'' 3 (returning_test 2)
     (UnitTester fresh_stream) 0 =
     (Returns False,
      (UnitTester fresh_stream)\<lparr>count_fail' := 2,
        out' := fresh_stream\<lparr>written :=
          CHR 0x1B # ''[31m'' @ [CHR 0xE2, CHR 0x98, CHR 0x92] @ ''  FAIL  '' @
          CHR 0x1B # ''[0m'' @ ''t'' @ [CHR 0x0A] @
          ''  expected value 3, found '' @
          CHR 0x1B # ''[31m'' @ [CHR 0xE2, CHR 0x98, CHR 0x92] @ ''  FAIL  '' @
          CHR 0x1B # ''[0m'' @ ''t'' @ [CHR 0x0A] @
          ''  expected value 3, got exception: no output'' @ [CHR 0x0A]\<rparr>\<rparr>,
      1)"
  by (simp add: expect_value_def expect_value_catch_def returning_test_def nan_eq_def
      nat_eq_def fail'_eq try_stream_value_throws throwing_inserter_def put_appended nl_def
      fail_line_def appended_def fresh_stream_def Let_def)

text \<open>
  C4, amended. For an identifier that the filter does not reject and a unit under test
  that returns a value \<open>x\<close>, \<^verbatim>\<open>expect_value\<close> returns true, and increments
  \<open>pass_count\<close>, exactly when \<^verbatim>\<open>operator==\<close> returns true for \<open>x\<close> and the expected
  value; then a PASS is recorded. When \<^verbatim>\<open>operator==\<close> returns false and
  \<^verbatim>\<open>operator<<\<close> of the two values does not throw, it returns false, \<open>fail_count\<close> is
  one more, \<open>pass_count\<close> is as before, and the FAIL line is followed by the diagnostic
  that shows the expected and the found value.
\<close>

theorem expect_value_compares:
  assumes "filter_rejects s i = Returns False" and "t w = (Returns x, w')"
  shows "(fst (expect_value eq pr pr' i v t s w) = Returns True \<longleftrightarrow> eq x v = Returns True) \<and>
    (count_pass' (fst (snd (expect_value eq pr pr' i v t s w))) = count_pass' s + 1
       \<longleftrightarrow> eq x v = Returns True) \<and>
    (eq x v = Returns True \<longrightarrow>
       expect_value eq pr pr' i v t s w = (Returns True, records_pass s i, w')) \<and>
    (eq x v = Returns False \<and> never_throws pr v \<and> never_throws pr' x \<longrightarrow>
       expect_value eq pr pr' i v t s w =
         (Returns False,
          s\<lparr>count_fail' := count_fail' s + 1,
            out' := appended ('' instead.'' @ [CHR 0x0A])
                      (snd (pr' x (appended '', found ''
                        (snd (pr v
                          (appended (fail_line s i @ ''  expected value '') (out' s)))))))\<rparr>,
          w'))"
proof (cases "eq x v = Returns True")
  case True
  with assms show ?thesis
    by (simp add: expect_value_passes records_pass_def)
next
  case False
  from expect_value_not_passes
    [where t = t and w = w and pr = pr and pr' = pr' and eq = eq and x = x and v = v,
      OF assms False]
  have "fst (expect_value eq pr pr' i v t s w) \<noteq> Returns True"
    and "count_pass' (fst (snd (expect_value eq pr pr' i v t s w))) = count_pass' s"
    by simp_all
  with False assms show ?thesis
    by (simp add: expect_value_fails)
qed

theorem expect_value_compares_witness:
  "filter_rejects (UnitTester fresh_stream) ''sum'' = Returns False \<and>
   returning_test 2 0 = (Returns 2, 1) \<and>
   nat_eq 2 2 = Returns True \<and> nat_eq 2 3 = Returns False \<and>
   never_throws nat_inserter 3 \<and> never_throws nat_inserter 2 \<and>
   expect_value nat_eq nat_inserter nat_inserter ''sum'' 2 (returning_test 2)
     (UnitTester fresh_stream) 0 =
     (Returns True,
      (UnitTester fresh_stream)\<lparr>count_pass' := 1,
        out' := fresh_stream\<lparr>written :=
          CHR 0x1B # ''[32m'' @ [CHR 0xE2, CHR 0x98, CHR 0x91] @ ''  PASS  '' @
          CHR 0x1B # ''[0m'' @ ''sum'' @ [CHR 0x0A]\<rparr>\<rparr>,
      1) \<and>
   expect_value nat_eq nat_inserter nat_inserter ''sum'' 3 (returning_test 2)
     (UnitTester fresh_stream) 0 =
     (Returns False,
      (UnitTester fresh_stream)\<lparr>count_fail' := 1,
        out' := fresh_stream\<lparr>written :=
          CHR 0x1B # ''[31m'' @ [CHR 0xE2, CHR 0x98, CHR 0x92] @ ''  FAIL  '' @
          CHR 0x1B # ''[0m'' @ ''sum'' @ [CHR 0x0A] @
          ''  expected value 3, found 2 instead.'' @ [CHR 0x0A]\<rparr>\<rparr>,
      1)"
proof -
  let ?s = "UnitTester fresh_stream"
  have h: "filter_rejects ?s ''sum'' = Returns False" by simp
  have r: "returning_test 2 0 = (Returns 2, 1)"
    by (simp add: returning_test_def)
  have e: "nat_eq 2 2 = Returns True" "nat_eq 2 3 = Returns False"
    by (simp_all add: nat_eq_def)
  have n: "never_throws nat_inserter 3" "never_throws nat_inserter 2" by simp_all
  have 1: "expect_value nat_eq nat_inserter nat_inserter ''sum'' 2 (returning_test 2) ?s 0 =
      (Returns True, records_pass ?s ''sum'', 1)"
    by (rule expect_value_compares
        [where t = "returning_test 2" and w = 0 and eq = nat_eq and v = 2,
          OF h r, THEN conjunct2, THEN conjunct2, THEN conjunct1, THEN mp, OF e(1)])
  have 2: "expect_value nat_eq nat_inserter nat_inserter ''sum'' 3 (returning_test 2) ?s 0 =
      (Returns False,
       ?s\<lparr>count_fail' := count_fail' ?s + 1,
         out' := appended ('' instead.'' @ [CHR 0x0A])
                   (snd (nat_inserter 2 (appended '', found ''
                     (snd (nat_inserter 3
                       (appended (fail_line ?s ''sum'' @ ''  expected value '')
                         (out' ?s)))))))\<rparr>,
       1)"
    by (rule expect_value_compares
        [where t = "returning_test 2" and w = 0 and eq = nat_eq and v = 3
          and pr = nat_inserter and pr' = nat_inserter,
          OF h r, THEN conjunct2, THEN conjunct2, THEN conjunct2, THEN mp,
          OF conjI [OF e(2) conjI [OF n(1) n(2)]]])
  show ?thesis
    unfolding 1 2 using h r e n
    by (simp add: records_pass_def pass_line_def fail_line_def appended_def fresh_stream_def)
qed

text \<open>
  C5. When the filter does not reject the identifier, \<^verbatim>\<open>expect_exception<Except>\<close>
  returns true exactly when the unit under test throws a fault that the handler for
  \<^verbatim>\<open>Except\<close> matches, and then records a PASS. A fault of another kind records a FAIL
  with the diagnostic "an exception happened but not of the correct type."; a normal
  return records a FAIL with "expected exception was not thrown."; the sessions after
  the two failures differ.
\<close>

theorem expect_exception_three_way:
  assumes "filter_rejects s i = Returns False" and "t w = (r, w')"
  shows "(fst (expect_exception ex i t s w) = Returns True \<longleftrightarrow> (\<exists>e. r = Throws e \<and> ex e)) \<and>
    (\<forall>e. r = Throws e \<and> ex e \<longrightarrow>
       expect_exception ex i t s w = (Returns True, records_pass s i, w')) \<and>
    (\<forall>e. r = Throws e \<and> \<not> ex e \<longrightarrow>
       expect_exception ex i t s w =
         (Returns False,
          records_fail s i ''  an exception happened but not of the correct type.'', w')) \<and>
    (\<forall>x. r = Returns x \<longrightarrow>
       expect_exception ex i t s w =
         (Returns False, records_fail s i ''  expected exception was not thrown.'', w')) \<and>
    (count_pass' (fst (snd (expect_exception ex i t s w))) = count_pass' s + 1
       \<longleftrightarrow> (\<exists>e. r = Throws e \<and> ex e)) \<and>
    records_fail s i ''  an exception happened but not of the correct type.'' \<noteq>
      records_fail s i ''  expected exception was not thrown.''"
proof -
  have differ: "records_fail s i ''  an exception happened but not of the correct type.'' \<noteq>
      records_fail s i ''  expected exception was not thrown.''"
  proof
    assume "records_fail s i ''  an exception happened but not of the correct type.'' =
      records_fail s i ''  expected exception was not thrown.''"
    then have "written (out' (records_fail s i
          ''  an exception happened but not of the correct type.'')) =
        written (out' (records_fail s i ''  expected exception was not thrown.''))"
      by simp
    then show False by (simp add: records_fail_def)
  qed
  show ?thesis
  proof (cases r)
    case (Returns x)
    with assms differ show ?thesis
      by (simp add: expect_exception_run records_fail_def)
  next
    case (Throws e)
    with assms differ show ?thesis
      by (simp add: expect_exception_run records_pass_def records_fail_def)
  qed
qed

theorem expect_exception_three_way_witness:
  "filter_rejects (UnitTester fresh_stream) ''t'' = Returns False \<and>
   expect_exception is_logic_error ''t''
     (throwing_test (Std_exception ''std::logic_error'' ''bad'')) (UnitTester fresh_stream) 0 =
     (Returns True,
      (UnitTester fresh_stream)\<lparr>count_pass' := 1,
        out' := fresh_stream\<lparr>written :=
          CHR 0x1B # ''[32m'' @ [CHR 0xE2, CHR 0x98, CHR 0x91] @ ''  PASS  '' @
          CHR 0x1B # ''[0m'' @ ''t'' @ [CHR 0x0A]\<rparr>\<rparr>,
      1) \<and>
   expect_exception is_logic_error ''t''
     (throwing_test (Non_standard ''int'')) (UnitTester fresh_stream) 0 =
     (Returns False,
      (UnitTester fresh_stream)\<lparr>count_fail' := 1,
        out' := fresh_stream\<lparr>written :=
          CHR 0x1B # ''[31m'' @ [CHR 0xE2, CHR 0x98, CHR 0x92] @ ''  FAIL  '' @
          CHR 0x1B # ''[0m'' @ ''t'' @ [CHR 0x0A] @
          ''  an exception happened but not of the correct type.'' @ [CHR 0x0A]\<rparr>\<rparr>,
      1) \<and>
   expect_exception is_logic_error ''t'' (returning_test 1) (UnitTester fresh_stream) 0 =
     (Returns False,
      (UnitTester fresh_stream)\<lparr>count_fail' := 1,
        out' := fresh_stream\<lparr>written :=
          CHR 0x1B # ''[31m'' @ [CHR 0xE2, CHR 0x98, CHR 0x92] @ ''  FAIL  '' @
          CHR 0x1B # ''[0m'' @ ''t'' @ [CHR 0x0A] @
          ''  expected exception was not thrown.'' @ [CHR 0x0A]\<rparr>\<rparr>,
      1)"
proof -
  let ?s = "UnitTester fresh_stream"
  have h: "filter_rejects ?s ''t'' = Returns False" by simp
  have a: "throwing_test (Std_exception ''std::logic_error'' ''bad'') 0 =
      (Throws (Std_exception ''std::logic_error'' ''bad''), 1)"
    and b: "throwing_test (Non_standard ''int'') 0 = (Throws (Non_standard ''int''), 1)"
    and c: "returning_test 1 0 = (Returns 1, 1)"
    by (simp_all add: throwing_test_def returning_test_def)
  have ka: "is_logic_error (Std_exception ''std::logic_error'' ''bad'')"
    and kb: "\<not> is_logic_error (Non_standard ''int'')"
    by (simp_all add: is_logic_error_def)
  from expect_exception_three_way
    [where t = "throwing_test (Std_exception ''std::logic_error'' ''bad'')" and w = 0
      and ex = is_logic_error, OF h a] ka
  have 1: "expect_exception is_logic_error ''t''
      (throwing_test (Std_exception ''std::logic_error'' ''bad'')) ?s 0 =
      (Returns True, records_pass ?s ''t'', 1)"
    by blast
  from expect_exception_three_way
    [where t = "throwing_test (Non_standard ''int'')" and w = 0 and ex = is_logic_error,
      OF h b] kb
  have 2: "expect_exception is_logic_error ''t'' (throwing_test (Non_standard ''int'')) ?s 0 =
      (Returns False,
       records_fail ?s ''t'' ''  an exception happened but not of the correct type.'', 1)"
    by blast
  from expect_exception_three_way
    [where t = "returning_test 1" and w = 0 and ex = is_logic_error, OF h c]
  have 3: "expect_exception is_logic_error ''t'' (returning_test 1) ?s 0 =
      (Returns False, records_fail ?s ''t'' ''  expected exception was not thrown.'', 1)"
    by blast
  show ?thesis
    unfolding 1 2 3 using h
    by (simp add: records_pass_def records_fail_def pass_line_def fail_line_def appended_def
        fresh_stream_def)
qed

text \<open>
  C6, as stated, fails: the endpoint \<open>min\<close> does not pass for all bounds. With
  \<open>min = 10\<close> and \<open>max = 0\<close> a unit under test that returns 10 is counted as FAIL.
\<close>

theorem endpoint_of_empty_range_fails:
  "filter_rejects (UnitTester fresh_stream) ''r'' = Returns False \<and>
   returning_test 10 0 = (Returns 10, 1) \<and>
   expect_in_range nat_le nat_le nat_inserter nat_inserter ''r'' 10 0 (returning_test 10)
     (UnitTester fresh_stream) 0 =
     (Returns False,
      (UnitTester fresh_stream)\<lparr>count_fail' := 1,
        out' := fresh_stream\<lparr>written :=
          CHR 0x1B # ''[31m'' @ [CHR 0xE2, CHR 0x98, CHR 0x92] @ ''  FAIL  '' @
          CHR 0x1B # ''[0m'' @ ''r'' @ [CHR 0x0A] @
          ''  value 10 is not in expected range [10, 0]'' @ [CHR 0x0A]\<rparr>\<rparr>,
      1)"
  by (simp add: expect_in_range_def in_range_def returning_test_def nat_le_def fail'_eq
      put_appended nl_def fail_line_def appended_def fresh_stream_def Let_def)

text \<open>
  C6, amended. For an identifier that the filter does not reject and a unit under test
  that returns a value \<open>r\<close>, \<^verbatim>\<open>expect_in_range\<close> returns true, and increments
  \<open>pass_count\<close>, exactly when \<^verbatim>\<open>min <= r\<close> and \<^verbatim>\<open>r <= max\<close> both hold; then a PASS
  is recorded. The comparisons are not strict: a result equal to \<open>min\<close>, or to \<open>max\<close>,
  passes when \<^verbatim>\<open>min <= max\<close> holds and the endpoint is \<^verbatim>\<open><=\<close> itself.
\<close>

theorem expect_in_range_inclusive:
  fixes t :: "('b, 'w) test" and u :: "('c, 'w) test" and lo :: 'c
  assumes "filter_rejects s i = Returns False" and "t w = (Returns r, w')"
  shows "(fst (expect_in_range le_min le_max pr pr' i mn mx t s w) = Returns True
       \<longleftrightarrow> le_min mn r = Returns True \<and> le_max r mx = Returns True) \<and>
    (count_pass' (fst (snd (expect_in_range le_min le_max pr pr' i mn mx t s w))) =
       count_pass' s + 1
       \<longleftrightarrow> le_min mn r = Returns True \<and> le_max r mx = Returns True) \<and>
    (le_min mn r = Returns True \<and> le_max r mx = Returns True \<longrightarrow>
       expect_in_range le_min le_max pr pr' i mn mx t s w =
         (Returns True, records_pass s i, w')) \<and>
    (u w = (Returns lo, wu) \<and> le lo lo = Returns True \<and> le lo hi = Returns True \<longrightarrow>
       expect_in_range le le pru pru i lo hi u s w = (Returns True, records_pass s i, wu)) \<and>
    (u w = (Returns hi, wu) \<and> le lo hi = Returns True \<and> le hi hi = Returns True \<longrightarrow>
       expect_in_range le le pru pru i lo hi u s w = (Returns True, records_pass s i, wu))"
proof -
  have ends: "expect_in_range le le pru pru i lo hi u s w = (Returns True, records_pass s i, wu)"
    if "u w = (Returns y, wu)" and "le lo y = Returns True" and "le y hi = Returns True" for y
    using assms(1) that by (simp add: expect_in_range_passes in_range_True)
  show ?thesis
  proof (cases "in_range le_min le_max mn r mx = Returns True")
    case True
    with assms ends show ?thesis
      by (simp add: expect_in_range_passes records_pass_def in_range_True)
  next
    case False
    from expect_in_range_not_passes
      [where t = t and w = w and pr = pr and pr' = pr' and le_min = le_min
        and le_max = le_max and mn = mn and mx = mx and x = r, OF assms False]
    have "fst (expect_in_range le_min le_max pr pr' i mn mx t s w) \<noteq> Returns True"
      and "count_pass' (fst (snd (expect_in_range le_min le_max pr pr' i mn mx t s w))) =
        count_pass' s"
      by simp_all
    with False ends show ?thesis
      by (auto simp: in_range_True)
  qed
qed

theorem expect_in_range_inclusive_witness:
  "filter_rejects (UnitTester fresh_stream) ''r'' = Returns False \<and>
   returning_test 5 0 = (Returns 5, 1) \<and> returning_test 0 0 = (Returns 0, 1) \<and>
   returning_test 10 0 = (Returns 10, 1) \<and> returning_test 11 0 = (Returns 11, 1) \<and>
   nat_le 0 5 = Returns True \<and> nat_le 5 10 = Returns True \<and> nat_le 0 0 = Returns True \<and>
   nat_le 0 10 = Returns True \<and> nat_le 10 10 = Returns True \<and>
   fst (expect_in_range nat_le nat_le nat_inserter nat_inserter ''r'' 0 10 (returning_test 5)
     (UnitTester fresh_stream) 0) = Returns True \<and>
   fst (expect_in_range nat_le nat_le nat_inserter nat_inserter ''r'' 0 10 (returning_test 0)
     (UnitTester fresh_stream) 0) = Returns True \<and>
   fst (expect_in_range nat_le nat_le nat_inserter nat_inserter ''r'' 0 10 (returning_test 10)
     (UnitTester fresh_stream) 0) = Returns True \<and>
   fst (expect_in_range nat_le nat_le nat_inserter nat_inserter ''r'' 0 10 (returning_test 11)
     (UnitTester fresh_stream) 0) \<noteq> Returns True"
proof -
  let ?s = "UnitTester fresh_stream"
  have h: "filter_rejects ?s ''r'' = Returns False" by simp
  have r: "returning_test 5 0 = (Returns 5, 1)" "returning_test 0 0 = (Returns 0, 1)"
    "returning_test 10 0 = (Returns 10, 1)" "returning_test 11 0 = (Returns 11, 1)"
    by (simp_all add: returning_test_def)
  have l: "nat_le 0 5 = Returns True" "nat_le 5 10 = Returns True" "nat_le 0 0 = Returns True"
    "nat_le 0 10 = Returns True" "nat_le 10 10 = Returns True" "nat_le 11 10 \<noteq> Returns True"
    by (simp_all add: nat_le_def)
  have 1: "fst (expect_in_range nat_le nat_le nat_inserter nat_inserter ''r'' 0 10
      (returning_test 5) ?s 0) = Returns True"
    using expect_in_range_inclusive
      [where t = "returning_test 5" and w = 0 and le_min = nat_le and le_max = nat_le
        and mn = 0 and mx = 10 and pr = nat_inserter and pr' = nat_inserter,
        OF h r(1), THEN conjunct1] l
    by simp
  have 2: "expect_in_range nat_le nat_le nat_inserter nat_inserter ''r'' 0 10
      (returning_test 0) ?s 0 = (Returns True, records_pass ?s ''r'', 1)"
    by (rule expect_in_range_inclusive
        [where t = "returning_test 5" and w = 0 and r = 5 and w' = 1
          and u = "returning_test 0" and le = nat_le and lo = 0 and hi = 10,
          OF h r(1), THEN conjunct2, THEN conjunct2, THEN conjunct2, THEN conjunct1, THEN mp,
          OF conjI [OF r(2) conjI [OF l(3) l(4)]]])
  have 3: "expect_in_range nat_le nat_le nat_inserter nat_inserter ''r'' 0 10
      (returning_test 10) ?s 0 = (Returns True, records_pass ?s ''r'', 1)"
    by (rule expect_in_range_inclusive
        [where t = "returning_test 5" and w = 0 and r = 5 and w' = 1
          and u = "returning_test 10" and le = nat_le and lo = 0 and hi = 10,
          OF h r(1), THEN conjunct2, THEN conjunct2, THEN conjunct2, THEN conjunct2, THEN mp,
          OF conjI [OF r(3) conjI [OF l(4) l(5)]]])
  have 4: "fst (expect_in_range nat_le nat_le nat_inserter nat_inserter ''r'' 0 10
      (returning_test 11) ?s 0) \<noteq> Returns True"
    using expect_in_range_inclusive
      [where t = "returning_test 11" and w = 0 and le_min = nat_le and le_max = nat_le
        and mn = 0 and mx = 10 and pr = nat_inserter and pr' = nat_inserter,
        OF h r(4), THEN conjunct1] l
    by simp
  from h r l 1 2 3 4 show ?thesis by simp
qed

text \<open>
  C7. \<^verbatim>\<open>summary\<close> changes nothing but the written characters, to which it appends, in
  this order: the skipped-count line if and only if \<open>skip_count > 0\<close>, the passed-count
  line always, the failed-count line if and only if \<open>fail_count > 0\<close>. Each line is the
  counter, as the stream renders it under its current flags, the fixed words, and a
  newline. When \<open>fail_count\<close> is zero the appended text ends with the passed-count line;
  when it is positive the word FAILED occurs in it. Where the stream renders numbers
  without the letter L, the word FAILED does not occur in the text when \<open>fail_count\<close> is
  zero.
\<close>

theorem summary_writes_lines:
  "summary s = s\<lparr>out' := appended (summary_text s) (out' s)\<rparr> \<and>
   summary_text s =
     (if 0 < count_skip' s then skipped_line s else []) @ passed_line s @
     (if 0 < count_fail' s then failed_line s else []) \<and>
   skipped_line s =
     num_put (out' s) (flags (out' s)) (count_skip' s) @ '' tests skipped.'' @ [CHR 0x0A] \<and>
   passed_line s =
     num_put (out' s) (flags (out' s)) (count_pass' s) @ '' tests passed.'' @ [CHR 0x0A] \<and>
   failed_line s =
     num_put (out' s) (flags (out' s)) (count_fail' s) @ '' tests '' @
     (if color_output' s then CHR 0x1B # ''[31m'' else []) @ ''FAILED !'' @
     (if color_output' s then CHR 0x1B # ''[0m'' else []) @ [CHR 0x0A] \<and>
   (count_fail' s = 0 \<longrightarrow>
      summary_text s = (if 0 < count_skip' s then skipped_line s else []) @ passed_line s) \<and>
   (0 < count_fail' s \<longrightarrow> sublist ''FAILED'' (summary_text s)) \<and>
   (count_fail' s = 0 \<and> (\<forall>c. CHR ''L'' \<notin> set (num_put (out' s) (flags (out' s)) c)) \<longrightarrow>
      \<not> sublist ''FAILED'' (summary_text s))"
proof -
  have pos: "sublist ''FAILED'' (summary_text s)" if "0 < count_fail' s"
  proof -
    from sublist_FAILED [of s] obtain ps ss where "failed_line s = ps @ ''FAILED'' @ ss"
      unfolding sublist_def by blast
    with that have "summary_text s =
        ((if 0 < count_skip' s then skipped_line s else []) @ passed_line s @ ps) @
        ''FAILED'' @ ss"
      by (simp add: summary_text_def)
    then show ?thesis unfolding sublist_def by blast
  qed
  have neg: "\<not> sublist ''FAILED'' (summary_text s)"
    if "count_fail' s = 0" and "\<forall>c. CHR ''L'' \<notin> set (num_put (out' s) (flags (out' s)) c)"
  proof
    assume "sublist ''FAILED'' (summary_text s)"
    then obtain ps ss where "summary_text s = ps @ ''FAILED'' @ ss"
      unfolding sublist_def by blast
    then have "CHR ''L'' \<in> set (summary_text s)" by simp
    with that show False
      by (simp add: summary_text_def skipped_line_def passed_line_def split: if_splits)
  qed
  from pos neg show ?thesis
    by (simp add: summary_eq summary_text_def skipped_line_def passed_line_def failed_line_def)
qed

theorem summary_writes_lines_witness:
  "count_fail' ((UnitTester fresh_stream)\<lparr>count_pass' := 12, count_skip' := 3\<rparr>) = 0 \<and>
   written (out' (summary ((UnitTester fresh_stream)\<lparr>count_pass' := 12, count_skip' := 3\<rparr>))) =
     ''3 tests skipped.'' @ [CHR 0x0A] @ ''12 tests passed.'' @ [CHR 0x0A] \<and>
   \<not> sublist ''FAILED''
     (summary_text ((UnitTester fresh_stream)\<lparr>count_pass' := 12, count_skip' := 3\<rparr>)) \<and>
   0 < count_fail' ((UnitTester fresh_stream)\<lparr>count_pass' := 7, count_fail' := 2\<rparr>) \<and>
   written (out' (summary ((UnitTester fresh_stream)\<lparr>count_pass' := 7, count_fail' := 2\<rparr>))) =
     ''7 tests passed.'' @ [CHR 0x0A] @ ''2 tests '' @ CHR 0x1B # ''[31m'' @ ''FAILED !'' @
     CHR 0x1B # ''[0m'' @ [CHR 0x0A] \<and>
   sublist ''FAILED''
     (summary_text ((UnitTester fresh_stream)\<lparr>count_pass' := 7, count_fail' := 2\<rparr>)) \<and>
   written (out' (summary
     ((UnitTester (fresh_stream\<lparr>flags := \<lparr>boolalpha = False, other_flags = 1\<rparr>\<rparr>))
        \<lparr>count_pass' := 12\<rparr>))) =
     ''c tests passed.'' @ [CHR 0x0A]"
proof -
  let ?s1 = "(UnitTester fresh_stream)\<lparr>count_pass' := 12, count_skip' := 3\<rparr>"
  let ?s2 = "(UnitTester fresh_stream)\<lparr>count_pass' := 7, count_fail' := 2\<rparr>"
  let ?s3 = "(UnitTester (fresh_stream\<lparr>flags := \<lparr>boolalpha = False, other_flags = 1\<rparr>\<rparr>))
    \<lparr>count_pass' := 12\<rparr>"
  have z1: "count_fail' ?s1 = 0" and p2: "0 < count_fail' ?s2" by simp_all
  have w: "written (out' (summary s)) = written (out' s) @ summary_text s" for s
    using summary_writes_lines [of s] by simp
  have t1: "summary_text ?s1 = ''3 tests skipped.'' @ [CHR 0x0A] @ ''12 tests passed.'' @ [CHR 0x0A]"
    using summary_writes_lines [of ?s1]
    by (simp add: fresh_stream_def base_put_def)
  have t2: "summary_text ?s2 =
      ''7 tests passed.'' @ [CHR 0x0A] @ ''2 tests '' @ CHR 0x1B # ''[31m'' @ ''FAILED !'' @
      CHR 0x1B # ''[0m'' @ [CHR 0x0A]"
    using summary_writes_lines [of ?s2]
    by (simp add: fresh_stream_def base_put_def)
  have t3: "summary_text ?s3 = ''c tests passed.'' @ [CHR 0x0A]"
    using summary_writes_lines [of ?s3]
    by (simp add: fresh_stream_def base_put_def)
  from summary_writes_lines [of ?s2] p2
  have f2: "sublist ''FAILED'' (summary_text ?s2)" by blast
  have e: "written (out' ?s1) = []" "written (out' ?s2) = []" "written (out' ?s3) = []"
    by (simp_all add: fresh_stream_def)
  have l: "\<forall>c. CHR ''L'' \<notin> set (num_put (out' ?s1) (flags (out' ?s1)) c)"
    by (simp add: fresh_stream_def base_put_no_L)
  from summary_writes_lines [of ?s1] z1 l
  have n1: "\<not> sublist ''FAILED'' (summary_text ?s1)" by blast
  from z1 p2 f2 n1 show ?thesis
    unfolding w t1 t2 t3 e by simp
qed

text \<open>
  C8. For each of the six assertions, calling it through the handle that
  \<^verbatim>\<open>operator()\<close> makes for an identifier gives the same return value, the same session
  (counters and output) and the same world as calling it on the session with that
  identifier.
\<close>

theorem named_handle_forwards:
  fixes t1 :: "('a, 'w) test" and t2 :: "('b, 'w) test" and t3 :: "('c, 'w) test"
    and t4 :: "('d, 'w) test" and t5 :: "('e, 'w) test" and t6 :: "('f, 'w) test"
  shows "namer_expect_true (call_operator s i) lnot1 t1 s w = expect_true lnot1 i t1 s w \<and>
    namer_expect_false (call_operator s i) lnot2 t2 s w = expect_false lnot2 i t2 s w \<and>
    namer_expect_value (call_operator s i) eq3 pr3 pr3' v t3 s w =
      expect_value eq3 pr3 pr3' i v t3 s w \<and>
    namer_expect_in_range (call_operator s i) le4 le4' pr4 pr4' mn mx t4 s w =
      expect_in_range le4 le4' pr4 pr4' i mn mx t4 s w \<and>
    namer_expect_any_exception (call_operator s i) t5 s w = expect_any_exception i t5 s w \<and>
    namer_expect_exception (call_operator s i) ex t6 s w = expect_exception ex i t6 s w"
  by (simp add: call_operator_def namer_expect_true_def namer_expect_false_def
      namer_expect_value_def namer_expect_in_range_def namer_expect_any_exception_def
      namer_expect_exception_def)




text \<open>
  C10. The configuration calls (\<^verbatim>\<open>color_output(bool)\<close>, \<^verbatim>\<open>hide_pass\<close>,
  \<^verbatim>\<open>show_pass\<close>, \<^verbatim>\<open>only_if\<close>, \<^verbatim>\<open>always\<close>) and \<^verbatim>\<open>summary\<close> leave the three
  counters as they are; the accessors return a field of the session and have no effect.
\<close>

theorem only_assertions_change_counters:
  "counters (color_output_set c s) = counters s \<and>
   counters (hide_pass s) = counters s \<and>
   counters (show_pass s) = counters s \<and>
   counters (only_if f s) = counters s \<and>
   counters (always s) = counters s \<and>
   counters (summary s) = counters s \<and>
   count_pass s = count_pass' s \<and>
   count_fail s = count_fail' s \<and>
   color_output s = color_output' s"
  by (simp add: counters_def color_output_set_def hide_pass_def show_pass_def only_if_def
      always_def summary_def count_pass_def count_fail_def color_output_def Let_def)

end
